theory Spec2Isabelle
  imports Complex_Main
begin

section \<open>The cell-based Courant number blended interpolation scheme\<close>

text \<open>
  A shallow embedding of the class \<open>Foam::cellCoBlended\<close> (cellCoBlended.H).
  The C++ type \<open>scalar\<close> is read as the real numbers, so the arithmetic of the
  fields is exact; the rounding of the double arithmetic is modelled apart,
  for the expression of the blending factor. A field is the list of its
  values. The
  mesh, the object registry, the run-time selection tables and the parameter
  stream are collaborators of the class; they appear as data and functions
  that the operations of the class receive.
\<close>

subsection \<open>Scalars, fields and dimension sets\<close>

type_synonym scalar = real
type_synonym label = nat
type_synonym 'a Field = "'a list"

text \<open>
  Modelled from the spec: the class \<open>dimensionSet\<close> and the values of the
  constants \<open>dimless\<close>, \<open>dimFlux\<close> and \<open>dimMassFlux\<close>, which dimensionSets.H
  only declares. A dimension set is the vector of exponents of mass, length,
  time, temperature, moles, current and luminous intensity, compared exactly;
  \<open>dimFlux\<close> is length cubed per time and \<open>dimMassFlux\<close> is mass per time.
\<close>

datatype dimensionSet = dimensionSet int int int int int int int

definition dimless :: dimensionSet where
  "dimless = dimensionSet 0 0 0 0 0 0 0"

definition dimFlux :: dimensionSet where
  "dimFlux = dimensionSet 0 3 (- 1) 0 0 0 0"

definition dimMassFlux :: dimensionSet where
  "dimMassFlux = dimensionSet 1 0 (- 1) 0 0 0 0"

text \<open>
  A field carries its name and its dimension set. A surface field holds one
  value for each face, the internal faces first and the boundary faces after
  them, in the face order of the mesh. A volume field holds one value for each
  cell, one value for each boundary face, and the type of its patch fields.
\<close>

record fieldHeader =
  name :: string
  dimensions :: dimensionSet

record 'a SurfaceField = fieldHeader +
  faceValues :: "'a Field"

record 'a VolField = fieldHeader +
  primitiveField :: "'a Field"
  boundaryField :: "'a Field"
  patchFieldType :: string

text \<open>Element-wise field algebra, as far as the class uses it.\<close>

definition divide_fields :: "scalar Field \<Rightarrow> scalar Field \<Rightarrow> scalar Field" where
  "divide_fields xs ys = map2 (\<lambda>x y. x / y) xs ys"

definition mag :: "scalar Field \<Rightarrow> scalar Field" where
  "mag xs = map abs xs"

definition times_scalar :: "scalar Field \<Rightarrow> scalar \<Rightarrow> scalar Field" where
  "times_scalar xs s = map (\<lambda>x. x * s) xs"

definition one_minus :: "scalar Field \<Rightarrow> scalar Field" where
  "one_minus bf = map (\<lambda>b. 1 - b) bf"

definition times_field :: "scalar Field \<Rightarrow> 'a::real_vector Field \<Rightarrow> 'a Field" where
  "times_field bf xs = map2 (\<lambda>b x. b *\<^sub>R x) bf xs"

definition plus_fields :: "'a::real_vector Field \<Rightarrow> 'a Field \<Rightarrow> 'a Field" where
  "plus_fields xs ys = map2 (\<lambda>x y. x + y) xs ys"

subsection \<open>Errors\<close>

text \<open>
  A fatal error ends the run after printing its message. The message is kept
  as the sequence of items streamed into it.
\<close>

datatype messageItem = Str string | Num scalar

datatype error = FatalIOError "messageItem list" | FatalError "messageItem list"

subsection \<open>The mesh, its registry and the time\<close>

text \<open>
  The face flux member of the scheme is a C++ reference to a field owned by
  the solver, so the scheme holds an address and the field behind it is read
  again at every evaluation. \<open>surfaceFieldAt\<close> is the store. \<open>owner\<close> gives the
  owner cell of every face, \<open>neighbour\<close> the neighbour cell of every internal
  face. \<open>interpolateScheme\<close> is \<open>fvc::interpolate\<close>: the scheme selected at run
  time for the named field in \<open>interpolationSchemes\<close>, bound to this mesh.
\<close>

type_synonym ref = nat

record fvMesh =
  V :: "scalar Field"
  owner :: "label list"
  neighbour :: "label list"
  timeName :: string
  deltaTValue :: scalar
  surfaceScalarFields :: "string \<rightharpoonup> ref"
  volScalarFields :: "string \<rightharpoonup> scalar VolField"
  surfaceFieldAt :: "ref \<Rightarrow> scalar SurfaceField"
  interpolateScheme :: "scalar VolField \<Rightarrow> scalar Field"

definition nCells :: "fvMesh \<Rightarrow> nat" where
  "nCells mesh = length (V mesh)"

definition nInternalFaces :: "fvMesh \<Rightarrow> nat" where
  "nInternalFaces mesh = length (neighbour mesh)"

definition boundaryFaceCells :: "fvMesh \<Rightarrow> label list" where
  "boundaryFaceCells mesh = drop (nInternalFaces mesh) (owner mesh)"

text \<open>
  Modelled from the spec: \<open>objectRegistry::lookupObject\<close>, which is not part of
  the sources at hand. A name that is not registered is a fatal error.
\<close>

definition lookupSurfaceScalarField :: "fvMesh \<Rightarrow> string \<Rightarrow> error + ref" where
  "lookupSurfaceScalarField mesh nm =
     (case surfaceScalarFields mesh nm of
        None \<Rightarrow> Inl (FatalError [Str ''request for surfaceScalarField '', Str nm, Str '' failed''])
      | Some r \<Rightarrow> Inr r)"

definition lookupVolScalarField :: "fvMesh \<Rightarrow> string \<Rightarrow> error + scalar VolField" where
  "lookupVolScalarField mesh nm =
     (case volScalarFields mesh nm of
        None \<Rightarrow> Inl (FatalError [Str ''request for volScalarField '', Str nm, Str '' failed''])
      | Some f \<Rightarrow> Inr f)"

text \<open>
  Modelled from the spec: \<open>fvc::surfaceSum\<close> (fvcSurfaceIntegrate), which is not
  part of the sources at hand. For each cell it adds up the values of the
  surface field on all the faces that bound the cell: the faces the cell owns
  and the internal faces of which it is the neighbour.
\<close>

definition facesOfCell :: "fvMesh \<Rightarrow> 'a Field \<Rightarrow> label \<Rightarrow> 'a Field" where
  "facesOfCell mesh ssf celli =
     map snd (filter (\<lambda>(c, x). c = celli) (zip (owner mesh) ssf @ zip (neighbour mesh) ssf))"

definition surfaceSum :: "fvMesh \<Rightarrow> scalar Field \<Rightarrow> scalar Field" where
  "surfaceSum mesh ssf = map (\<lambda>celli. sum_list (facesOfCell mesh ssf celli)) [0..<nCells mesh]"

text \<open>
  Modelled from the spec: \<open>correctBoundaryConditions\<close> of a field whose patch
  fields are of type \<open>extrapolatedCalculated\<close>, which is not part of the sources
  at hand. The value on each boundary face becomes the value of the cell next
  to the face; patch fields of another type are left as they are.
\<close>

definition extrapolatedCalculatedTypeName :: string where
  "extrapolatedCalculatedTypeName = ''extrapolatedCalculated''"

definition correctBoundaryConditions :: "fvMesh \<Rightarrow> 'a VolField \<Rightarrow> 'a VolField" where
  "correctBoundaryConditions mesh vf =
     (if patchFieldType vf = extrapolatedCalculatedTypeName
      then vf\<lparr>boundaryField := map (\<lambda>celli. primitiveField vf ! celli) (boundaryFaceCells mesh)\<rparr>
      else vf)"

subsection \<open>The parameter stream\<close>

datatype token = scalarToken scalar | wordToken string

type_synonym Istream = "token list"

text \<open>
  Modelled from the spec: \<open>readScalar(Istream&)\<close> and the constructor
  \<open>word(Istream&)\<close>, which are not part of the sources at hand. Each takes the
  next token of the stream; a missing token or one of the wrong kind is a
  fatal error.
\<close>

definition readScalar :: "Istream \<Rightarrow> error + scalar \<times> Istream" where
  "readScalar is =
     (case is of
        scalarToken s # rest \<Rightarrow> Inr (s, rest)
      | _ \<Rightarrow> Inl (FatalIOError [Str ''wrong token type - expected scalar'']))"

definition readWord :: "Istream \<Rightarrow> error + string \<times> Istream" where
  "readWord is =
     (case is of
        wordToken w # rest \<Rightarrow> Inr (w, rest)
      | _ \<Rightarrow> Inl (FatalIOError [Str ''wrong token type - expected word'']))"

subsection \<open>Interpolation schemes\<close>

text \<open>
  The abstract class \<open>surfaceInterpolationScheme<Type>\<close>, seen from the blended
  scheme: the four virtual functions of a sub-scheme. \<open>correctionOf\<close> is called
  only for a sub-scheme whose \<open>correctedOf\<close> is true.
\<close>

record 'a surfaceInterpolationScheme =
  weightsOf :: "fvMesh \<Rightarrow> 'a VolField \<Rightarrow> scalar Field"
  interpolateOf :: "fvMesh \<Rightarrow> 'a VolField \<Rightarrow> 'a Field"
  correctedOf :: bool
  correctionOf :: "fvMesh \<Rightarrow> 'a VolField \<Rightarrow> 'a Field"

text \<open>
  The two forms of the run-time selector \<open>surfaceInterpolationScheme<Type>::New\<close>:
  each reads a scheme specification from the stream and returns the scheme
  and the rest of the stream, or fails.
\<close>

type_synonym 'a selector =
  "fvMesh \<Rightarrow> Istream \<Rightarrow> error + 'a surfaceInterpolationScheme \<times> Istream"

type_synonym 'a fluxSelector =
  "fvMesh \<Rightarrow> ref \<Rightarrow> Istream \<Rightarrow> error + 'a surfaceInterpolationScheme \<times> Istream"

subsection \<open>Class cellCoBlended: private data and constructors\<close>

record 'a cellCoBlended =
  Co1 :: scalar
  tScheme1 :: "'a surfaceInterpolationScheme"
  Co2 :: scalar
  tScheme2 :: "'a surfaceInterpolationScheme"
  faceFlux :: ref

text \<open>
  The body shared by the two constructors: the check of the coefficients.
\<close>

definition checkCoefficients :: "'a cellCoBlended \<Rightarrow> error + 'a cellCoBlended" where
  "checkCoefficients sch =
     (if Co1 sch < 0 \<or> Co2 sch < 0 \<or> Co1 sch \<ge> Co2 sch
      then Inl (FatalIOError
                  [Str ''coefficients = '', Num (Co1 sch), Str '' and '', Num (Co2 sch),
                   Str '' should be > 0 and Co2 > Co1''])
      else Inr sch)"

text \<open>
  The member initialisers of the constructor from mesh and stream, in the
  order of the members: \<open>Co1_\<close>, \<open>tScheme1_\<close>, \<open>Co2_\<close>, \<open>tScheme2_\<close>, and the flux
  field looked up under the name read last.
\<close>

definition initialiseFromStream ::
  "'a selector \<Rightarrow> fvMesh \<Rightarrow> Istream \<Rightarrow> error + 'a cellCoBlended \<times> Istream" where
  "initialiseFromStream New mesh is0 =
     (case readScalar is0 of Inl e \<Rightarrow> Inl e | Inr (c1, is1) \<Rightarrow>
     (case New mesh is1 of Inl e \<Rightarrow> Inl e | Inr (s1, is2) \<Rightarrow>
     (case readScalar is2 of Inl e \<Rightarrow> Inl e | Inr (c2, is3) \<Rightarrow>
     (case New mesh is3 of Inl e \<Rightarrow> Inl e | Inr (s2, is4) \<Rightarrow>
     (case readWord is4 of Inl e \<Rightarrow> Inl e | Inr (nm, is5) \<Rightarrow>
     (case lookupSurfaceScalarField mesh nm of Inl e \<Rightarrow> Inl e | Inr r \<Rightarrow>
        Inr (\<lparr>Co1 = c1, tScheme1 = s1, Co2 = c2, tScheme2 = s2, faceFlux = r\<rparr>, is5)))))))"

text \<open>The member initialisers of the constructor from mesh, face flux and stream.\<close>

definition initialiseFromFlux ::
  "'a fluxSelector \<Rightarrow> fvMesh \<Rightarrow> ref \<Rightarrow> Istream \<Rightarrow> error + 'a cellCoBlended \<times> Istream" where
  "initialiseFromFlux New mesh flux is0 =
     (case readScalar is0 of Inl e \<Rightarrow> Inl e | Inr (c1, is1) \<Rightarrow>
     (case New mesh flux is1 of Inl e \<Rightarrow> Inl e | Inr (s1, is2) \<Rightarrow>
     (case readScalar is2 of Inl e \<Rightarrow> Inl e | Inr (c2, is3) \<Rightarrow>
     (case New mesh flux is3 of Inl e \<Rightarrow> Inl e | Inr (s2, is4) \<Rightarrow>
        Inr (\<lparr>Co1 = c1, tScheme1 = s1, Co2 = c2, tScheme2 = s2, faceFlux = flux\<rparr>, is4)))))"

text \<open>The two constructors: member initialisers, then the body.\<close>

definition constructFromStream ::
  "'a selector \<Rightarrow> fvMesh \<Rightarrow> Istream \<Rightarrow> error + 'a cellCoBlended \<times> Istream" where
  "constructFromStream New mesh is0 =
     (case initialiseFromStream New mesh is0 of Inl e \<Rightarrow> Inl e | Inr (sch, is1) \<Rightarrow>
     (case checkCoefficients sch of Inl e \<Rightarrow> Inl e | Inr sch' \<Rightarrow> Inr (sch', is1)))"

definition constructFromFlux ::
  "'a fluxSelector \<Rightarrow> fvMesh \<Rightarrow> ref \<Rightarrow> Istream \<Rightarrow> error + 'a cellCoBlended \<times> Istream" where
  "constructFromFlux New mesh flux is0 =
     (case initialiseFromFlux New mesh flux is0 of Inl e \<Rightarrow> Inl e | Inr (sch, is1) \<Rightarrow>
     (case checkCoefficients sch of Inl e \<Rightarrow> Inl e | Inr sch' \<Rightarrow> Inr (sch', is1)))"

subsection \<open>Class cellCoBlended: member functions\<close>

text \<open>
  The working flux \<open>tUflux\<close> of \<open>blendingFactor\<close>: the face flux itself, or the
  face flux divided by the interpolated density when it is a mass flux.
\<close>

definition tUflux :: "fvMesh \<Rightarrow> 'a cellCoBlended \<Rightarrow> error + scalar Field" where
  "tUflux mesh sch =
     (let phi = surfaceFieldAt mesh (faceFlux sch) in
      if dimensions phi = dimMassFlux
      then (case lookupVolScalarField mesh ''rho'' of
              Inl e \<Rightarrow> Inl e
            | Inr rho \<Rightarrow> Inr (divide_fields (faceValues phi) (interpolateScheme mesh rho)))
      else if dimensions phi \<noteq> dimFlux
      then Inl (FatalError [Str ''dimensions of faceFlux are not correct''])
      else Inr (faceValues phi))"

text \<open>The scratch field \<open>Co\<close> as it is constructed.\<close>

definition CoConstructed :: "fvMesh \<Rightarrow> scalar VolField" where
  "CoConstructed mesh =
     \<lparr>name = ''Co'', dimensions = dimless,
      primitiveField = replicate (nCells mesh) 0,
      boundaryField = replicate (length (boundaryFaceCells mesh)) 0,
      patchFieldType = extrapolatedCalculatedTypeName\<rparr>"

definition sumPhi :: "fvMesh \<Rightarrow> scalar Field \<Rightarrow> scalar Field" where
  "sumPhi mesh Uflux = surfaceSum mesh (mag Uflux)"

text \<open>The field \<open>Co\<close> after the assignment to its internal values.\<close>

definition CoAssigned :: "fvMesh \<Rightarrow> scalar Field \<Rightarrow> scalar VolField" where
  "CoAssigned mesh Uflux =
     (CoConstructed mesh)
       \<lparr>primitiveField :=
          times_scalar (divide_fields (sumPhi mesh Uflux) (V mesh)) (0.5 * deltaTValue mesh)\<rparr>"

text \<open>The field \<open>Co\<close> that is interpolated to the faces.\<close>

definition Co :: "fvMesh \<Rightarrow> scalar Field \<Rightarrow> scalar VolField" where
  "Co mesh Uflux = correctBoundaryConditions mesh (CoAssigned mesh Uflux)"

text \<open>
  The expression of the returned field at one face, from the interpolated
  Courant number at that face.
\<close>

definition faceBlendingFactor :: "scalar \<Rightarrow> scalar \<Rightarrow> scalar \<Rightarrow> scalar" where
  "faceBlendingFactor co1 co2 coFace = 1 - max (min ((coFace - co1) / (co2 - co1)) 1) 0"

definition blendingFactor ::
  "fvMesh \<Rightarrow> 'a cellCoBlended \<Rightarrow> 'a VolField \<Rightarrow> error + scalar SurfaceField" where
  "blendingFactor mesh sch vf =
     (case tUflux mesh sch of
        Inl e \<Rightarrow> Inl e
      | Inr Uflux \<Rightarrow>
          Inr \<lparr>name = name vf @ ''BlendingFactor'', dimensions = dimless,
               faceValues =
                 map (faceBlendingFactor (Co1 sch) (Co2 sch))
                   (interpolateScheme mesh (Co mesh Uflux))\<rparr>)"

definition weights ::
  "fvMesh \<Rightarrow> 'a cellCoBlended \<Rightarrow> 'a VolField \<Rightarrow> error + scalar Field" where
  "weights mesh sch vf =
     (case blendingFactor mesh sch vf of
        Inl e \<Rightarrow> Inl e
      | Inr bfField \<Rightarrow>
          (let bf = faceValues bfField in
           Inr (plus_fields
                  (times_field bf (weightsOf (tScheme1 sch) mesh vf))
                  (times_field (one_minus bf) (weightsOf (tScheme2 sch) mesh vf)))))"

definition interpolate ::
  "fvMesh \<Rightarrow> 'a::real_vector cellCoBlended \<Rightarrow> 'a VolField \<Rightarrow> error + 'a Field" where
  "interpolate mesh sch vf =
     (case blendingFactor mesh sch vf of
        Inl e \<Rightarrow> Inl e
      | Inr bfField \<Rightarrow>
          (let bf = faceValues bfField in
           Inr (plus_fields
                  (times_field bf (interpolateOf (tScheme1 sch) mesh vf))
                  (times_field (one_minus bf) (interpolateOf (tScheme2 sch) mesh vf)))))"

definition corrected :: "'a cellCoBlended \<Rightarrow> bool" where
  "corrected sch = (correctedOf (tScheme1 sch) \<or> correctedOf (tScheme2 sch))"

text \<open>
  The explicit correction; \<open>None\<close> is the null \<open>tmp\<close> returned when neither
  sub-scheme is corrected.
\<close>

definition correction ::
  "fvMesh \<Rightarrow> 'a::real_vector cellCoBlended \<Rightarrow> 'a VolField \<Rightarrow> error + 'a Field option" where
  "correction mesh sch vf =
     (case blendingFactor mesh sch vf of
        Inl e \<Rightarrow> Inl e
      | Inr bfField \<Rightarrow>
          (let bf = faceValues bfField in
           if correctedOf (tScheme1 sch)
           then (if correctedOf (tScheme2 sch)
                 then Inr (Some (plus_fields
                        (times_field bf (correctionOf (tScheme1 sch) mesh vf))
                        (times_field (one_minus bf) (correctionOf (tScheme2 sch) mesh vf))))
                 else Inr (Some (times_field bf (correctionOf (tScheme1 sch) mesh vf))))
           else if correctedOf (tScheme2 sch)
           then Inr (Some (times_field (one_minus bf) (correctionOf (tScheme2 sch) mesh vf)))
           else Inr None))"

subsection \<open>The clamp of the specification\<close>

text \<open>
  The specification writes the blending factor with a clamp to an interval;
  this is that function, to be compared with the \<open>max\<close> of a \<open>min\<close> of the code.
\<close>

definition clamp :: "scalar \<Rightarrow> scalar \<Rightarrow> scalar \<Rightarrow> scalar" where
  "clamp x lo hi = (if x < lo then lo else if hi < x then hi else x)"

subsection \<open>Double precision\<close>

text \<open>
  The \<open>scalar\<close> of the code is an IEEE double. Where the rounding of the
  arithmetic decides a property, the expression is written a second time with
  the result of every operation rounded to a double: to the nearest number
  with a significand of 53 bits, a tie going to the even significand. The
  range of the exponent is not bounded, so overflow and subnormal numbers are
  not part of this model.

  \<open>binade x\<close> is the binary exponent of a positive \<open>x\<close>: the \<open>e\<close> with
  \<open>2 ^ e \<le> x < 2 ^ (e + 1)\<close>.
\<close>

function binade :: "real \<Rightarrow> int" where
  "binade x =
     (if 2 \<le> x then binade (x / 2) + 1
      else if 0 < x \<and> x < 1 then binade (2 * x) - 1
      else 0)"
  by pat_completeness auto
termination
proof (relation "measure (\<lambda>x. if 1 \<le> x then nat \<lfloor>x\<rfloor> - 1 else nat \<lfloor>1 / x\<rfloor>)")
  show "wf (measure (\<lambda>x::real. if 1 \<le> x then nat \<lfloor>x\<rfloor> - 1 else nat \<lfloor>1 / x\<rfloor>))"
    by simp
next
  fix x :: real
  assume x: "2 \<le> x"
  have "\<lfloor>x / 2\<rfloor> < \<lfloor>x\<rfloor>" and "1 \<le> \<lfloor>x / 2\<rfloor>"
    using x by (simp_all add: floor_less_iff le_floor_iff) linarith
  then show "(x / 2, x) \<in> measure (\<lambda>x. if 1 \<le> x then nat \<lfloor>x\<rfloor> - 1 else nat \<lfloor>1 / x\<rfloor>)"
    using x by simp linarith
next
  fix x :: real
  assume "\<not> 2 \<le> x" and x: "0 < x \<and> x < 1"
  have one: "1 \<le> \<lfloor>1 / x\<rfloor>"
    using x by (simp add: le_floor_iff)
  show "(2 * x, x) \<in> measure (\<lambda>x. if 1 \<le> x then nat \<lfloor>x\<rfloor> - 1 else nat \<lfloor>1 / x\<rfloor>)"
  proof (cases "1 \<le> 2 * x")
    case True
    then have "\<lfloor>2 * x\<rfloor> = 1"
      using x by (simp add: floor_eq_iff)
    then show ?thesis
      using True one x by simp
  next
    case False
    have "\<lfloor>1 / (2 * x)\<rfloor> < \<lfloor>1 / x\<rfloor>"
    proof -
      have "2 \<le> 1 / x"
        using False x by (simp add: le_divide_eq)
      then have step: "1 / (2 * x) + 1 \<le> 1 / x"
        using x by (simp add: field_simps)
      have "real_of_int \<lfloor>1 / (2 * x)\<rfloor> \<le> 1 / (2 * x)"
        by (rule of_int_floor_le)
      then have "real_of_int \<lfloor>1 / (2 * x)\<rfloor> + 1 \<le> 1 / x"
        using step by linarith
      then have "real_of_int (\<lfloor>1 / (2 * x)\<rfloor> + 1) \<le> 1 / x"
        by simp
      then have "\<lfloor>1 / (2 * x)\<rfloor> + 1 \<le> \<lfloor>1 / x\<rfloor>"
        by (simp only: le_floor_iff)
      then show ?thesis by simp
    qed
    then show ?thesis
      using False one x by simp
  qed
qed

declare binade.simps [simp del]

text \<open>Rounding to the nearest integer, a tie going to the even one.\<close>

definition roundEven :: "real \<Rightarrow> int" where
  "roundEven y =
     (let f = \<lfloor>y\<rfloor>; r = y - of_int f
      in if r < 1 / 2 then f else if 1 / 2 < r then f + 1 else if even f then f else f + 1)"

text \<open>Rounding to the nearest double, a tie going to the even significand.\<close>

definition roundToDouble :: "real \<Rightarrow> real" where
  "roundToDouble x =
     (if x = 0 then 0
      else (let ulp = 2 powi (binade \<bar>x\<bar> - 52) in of_int (roundEven (x / ulp)) * ulp))"

text \<open>
  The expression of the returned field at one face as the processor evaluates
  it: the two subtractions under the quotient, the quotient and the final
  subtraction are each rounded; \<open>min\<close> and \<open>max\<close> select one of their
  arguments and do not round.
\<close>

definition faceBlendingFactorDouble :: "real \<Rightarrow> real \<Rightarrow> real \<Rightarrow> real" where
  "faceBlendingFactorDouble co1 co2 coFace =
     roundToDouble
       (1 - max (min (roundToDouble (roundToDouble (coFace - co1) / roundToDouble (co2 - co1))) 1) 0)"

subsection \<open>A mesh of two cells\<close>

text \<open>
  The end-to-end scenario of the specification: two cells of volume 1 that
  share one internal face, and no boundary face. The time step and the flux
  field behind the reference are left open, so that the same scheme can be
  evaluated on different states. Fields are interpolated to the face by the
  mean of the two cell values.
\<close>

definition dimDensity :: dimensionSet where
  "dimDensity = dimensionSet 1 (- 3) 0 0 0 0 0"

definition exampleInterpolate :: "label list \<Rightarrow> label list \<Rightarrow> scalar VolField \<Rightarrow> scalar Field" where
  "exampleInterpolate own nei vf =
     map2 (\<lambda>p n. (primitiveField vf ! p + primitiveField vf ! n) / 2) own nei @ boundaryField vf"

definition exampleRho :: "scalar VolField" where
  "exampleRho =
     \<lparr>name = ''rho'', dimensions = dimDensity, primitiveField = [2, 2],
      boundaryField = [], patchFieldType = ''calculated''\<rparr>"

definition exampleMesh :: "scalar \<Rightarrow> scalar SurfaceField \<Rightarrow> fvMesh" where
  "exampleMesh deltaT phi =
     \<lparr>V = [1, 1], owner = [0], neighbour = [1], timeName = ''0'', deltaTValue = deltaT,
      surfaceScalarFields = [''phi'' \<mapsto> 0],
      volScalarFields = [''rho'' \<mapsto> exampleRho],
      surfaceFieldAt = (\<lambda>r. phi),
      interpolateScheme = exampleInterpolate [0] [1]\<rparr>"

definition exampleFlux :: "dimensionSet \<Rightarrow> scalar \<Rightarrow> scalar SurfaceField" where
  "exampleFlux dims x = \<lparr>name = ''phi'', dimensions = dims, faceValues = [x]\<rparr>"

definition exampleField :: "scalar VolField" where
  "exampleField =
     \<lparr>name = ''T'', dimensions = dimless, primitiveField = [10, 20],
      boundaryField = [], patchFieldType = ''calculated''\<rparr>"

text \<open>
  Two sub-schemes for the examples: one takes the mean of the two cell values
  and has no correction, the other takes the value of the owner cell and
  corrects it explicitly by half the difference to the neighbour.
\<close>

definition exampleCentral :: "scalar surfaceInterpolationScheme" where
  "exampleCentral =
     \<lparr>weightsOf = (\<lambda>mesh vf. map (\<lambda>n. 1 / 2) (neighbour mesh)),
      interpolateOf = (\<lambda>mesh vf. exampleInterpolate (owner mesh) (neighbour mesh) vf),
      correctedOf = False,
      correctionOf = (\<lambda>mesh vf. [])\<rparr>"

definition exampleCorrected :: "scalar surfaceInterpolationScheme" where
  "exampleCorrected =
     \<lparr>weightsOf = (\<lambda>mesh vf. map (\<lambda>n. 1) (neighbour mesh)),
      interpolateOf = (\<lambda>mesh vf. map (\<lambda>p. primitiveField vf ! p) (owner mesh)),
      correctedOf = True,
      correctionOf = (\<lambda>mesh vf.
        map2 (\<lambda>p n. (primitiveField vf ! n - primitiveField vf ! p) / 2) (owner mesh) (neighbour mesh))\<rparr>"

definition exampleNew :: "scalar selector" where
  "exampleNew mesh is =
     (case is of
        wordToken w # rest \<Rightarrow>
          if w = ''central'' then Inr (exampleCentral, rest)
          else if w = ''corrected'' then Inr (exampleCorrected, rest)
          else Inl (FatalIOError [Str ''Unknown discretisation scheme '', Str w])
      | _ \<Rightarrow> Inl (FatalIOError [Str ''Discretisation scheme not specified'']))"

definition exampleNewFlux :: "scalar fluxSelector" where
  "exampleNewFlux mesh flux is = exampleNew mesh is"

definition exampleScheme ::
  "scalar \<Rightarrow> scalar surfaceInterpolationScheme \<Rightarrow> scalar \<Rightarrow> scalar surfaceInterpolationScheme
     \<Rightarrow> scalar cellCoBlended" where
  "exampleScheme c1 s1 c2 s2 = \<lparr>Co1 = c1, tScheme1 = s1, Co2 = c2, tScheme2 = s2, faceFlux = 0\<rparr>"

section \<open>Properties of the model\<close>

subsection \<open>The constructors\<close>

lemma checkCoefficients_Inr:
  "checkCoefficients sch = Inr sch' \<Longrightarrow>
     sch' = sch \<and> 0 \<le> Co1 sch \<and> 0 \<le> Co2 sch \<and> Co1 sch < Co2 sch"
  by (auto simp: checkCoefficients_def split: if_splits)

lemma constructFromStream_coefficients:
  "constructFromStream New mesh is0 = Inr (sch, is1) \<Longrightarrow>
     0 \<le> Co1 sch \<and> 0 \<le> Co2 sch \<and> Co1 sch < Co2 sch"
  by (auto simp: constructFromStream_def split: sum.splits dest: checkCoefficients_Inr)

lemma constructFromFlux_coefficients:
  "constructFromFlux New mesh flux is0 = Inr (sch, is1) \<Longrightarrow>
     0 \<le> Co1 sch \<and> 0 \<le> Co2 sch \<and> Co1 sch < Co2 sch"
  by (auto simp: constructFromFlux_def split: sum.splits dest: checkCoefficients_Inr)

lemma constructed_coefficients:
  assumes "constructFromStream New mesh is0 = Inr (sch, is1) \<or>
           constructFromFlux NewFlux mesh flux is0 = Inr (sch, is1)"
  shows "0 \<le> Co1 sch \<and> 0 \<le> Co2 sch \<and> Co1 sch < Co2 sch"
  using assms constructFromStream_coefficients constructFromFlux_coefficients by blast

subsection \<open>The ramp at one face\<close>

lemma faceBlendingFactor_clamp:
  "faceBlendingFactor a b c = 1 - clamp ((c - a) / (b - a)) 0 1"
  by (simp add: faceBlendingFactor_def clamp_def)

lemma faceBlendingFactor_range:
  "0 \<le> faceBlendingFactor a b c \<and> faceBlendingFactor a b c \<le> 1"
  by (simp add: faceBlendingFactor_def)

lemma faceBlendingFactor_low:
  assumes "a < b" and "c \<le> a"
  shows "faceBlendingFactor a b c = 1"
proof -
  have "(c - a) / (b - a) \<le> 0"
    using assms by (simp add: divide_nonpos_pos)
  then show ?thesis
    by (simp add: faceBlendingFactor_def)
qed

lemma faceBlendingFactor_high:
  assumes "a < b" and "b \<le> c"
  shows "faceBlendingFactor a b c = 0"
proof -
  have "1 \<le> (c - a) / (b - a)"
    using assms by (simp add: le_divide_eq)
  then show ?thesis
    by (simp add: faceBlendingFactor_def)
qed

lemma faceBlendingFactor_ramp:
  assumes "a < b" and "a \<le> c" and "c \<le> b"
  shows "faceBlendingFactor a b c = 1 - (c - a) / (b - a)"
proof -
  have "0 \<le> (c - a) / (b - a)" and "(c - a) / (b - a) \<le> 1"
    using assms by (simp_all add: divide_le_eq)
  then show ?thesis
    by (simp add: faceBlendingFactor_def)
qed

lemma faceBlendingFactor_midpoint:
  assumes "a < b"
  shows "faceBlendingFactor a b ((a + b) / 2) = 1 / 2"
proof -
  have half: "((a + b) / 2 - a) / (b - a) = 1 / 2"
    using assms by (simp add: field_simps)
  show ?thesis
    unfolding faceBlendingFactor_def half by simp
qed

lemma faceBlendingFactor_antimono:
  assumes "a < b" and "c \<le> d"
  shows "faceBlendingFactor a b d \<le> faceBlendingFactor a b c"
proof -
  have "(c - a) / (b - a) \<le> (d - a) / (b - a)"
    using assms by (simp add: divide_right_mono)
  then show ?thesis
    unfolding faceBlendingFactor_def by (auto simp: max_def min_def)
qed

subsection \<open>The Courant number field and the blending factor\<close>

lemma dimFlux_neq_dimMassFlux: "dimFlux \<noteq> dimMassFlux"
  by (simp add: dimFlux_def dimMassFlux_def)

lemma facesOfCell_map: "facesOfCell mesh (map f xs) celli = map f (facesOfCell mesh xs celli)"
  by (simp add: facesOfCell_def zip_map2 filter_map o_def split_def)

lemma length_sumPhi: "length (sumPhi mesh Uflux) = nCells mesh"
  by (simp add: sumPhi_def surfaceSum_def)

lemma sumPhi_cell:
  "celli < nCells mesh \<Longrightarrow> sumPhi mesh Uflux ! celli = sum_list (map abs (facesOfCell mesh Uflux celli))"
  by (simp add: sumPhi_def surfaceSum_def mag_def facesOfCell_map)

lemma primitiveField_Co:
  "primitiveField (Co mesh Uflux) =
     times_scalar (divide_fields (sumPhi mesh Uflux) (V mesh)) (0.5 * deltaTValue mesh)"
  by (simp add: Co_def correctBoundaryConditions_def CoAssigned_def)

lemma Co_cell:
  assumes "celli < nCells mesh"
  shows "primitiveField (Co mesh Uflux) ! celli =
           sum_list (map abs (facesOfCell mesh Uflux celli)) / V mesh ! celli * 0.5 * deltaTValue mesh"
proof -
  have len: "celli < length (zip (sumPhi mesh Uflux) (V mesh))"
    using assms by (simp add: length_sumPhi nCells_def)
  have "primitiveField (Co mesh Uflux) ! celli =
          sumPhi mesh Uflux ! celli / V mesh ! celli * (0.5 * deltaTValue mesh)"
    using len by (simp add: primitiveField_Co times_scalar_def divide_fields_def)
  then show ?thesis
    using assms by (simp add: sumPhi_cell)
qed

lemma Co_attributes:
  "name (Co mesh Uflux) = ''Co'' \<and> dimensions (Co mesh Uflux) = dimless \<and>
   patchFieldType (Co mesh Uflux) = extrapolatedCalculatedTypeName"
  by (simp add: Co_def correctBoundaryConditions_def CoAssigned_def CoConstructed_def)

lemma blendingFactor_Inr:
  "blendingFactor mesh sch vf = Inr bf \<Longrightarrow>
     \<exists>Uflux. tUflux mesh sch = Inr Uflux \<and>
       faceValues bf = map (faceBlendingFactor (Co1 sch) (Co2 sch)) (interpolateScheme mesh (Co mesh Uflux))"
  by (auto simp: blendingFactor_def split: sum.splits)

subsection \<open>The blend of two fields\<close>

lemma nth_blend:
  fixes x1 x2 :: "'a::real_vector Field"
  assumes "i < length bf" and "i < length x1" and "i < length x2"
  shows "plus_fields (times_field bf x1) (times_field (one_minus bf) x2) ! i =
           bf ! i *\<^sub>R x1 ! i + (1 - bf ! i) *\<^sub>R x2 ! i"
  using assms by (simp add: plus_fields_def times_field_def one_minus_def)

subsection \<open>Rounding to double precision\<close>

lemma binade_bounds:
  "0 < x \<Longrightarrow> 2 powi binade x \<le> x \<and> x < 2 powi (binade x + 1)"
proof (induction x rule: binade.induct)
  case (1 x)
  show ?case
  proof (cases "2 \<le> x")
    case True
    then have b: "binade x = binade (x / 2) + 1"
      by (simp add: binade.simps [of x])
    have "2 powi binade (x / 2) \<le> x / 2 \<and> x / 2 < 2 powi (binade (x / 2) + 1)"
      using "1.IH"(1) [OF True] "1.prems" by simp
    then show ?thesis
      by (simp add: b power_int_add)
  next
    case False
    show ?thesis
    proof (cases "x < 1")
      case True
      then have b: "binade x = binade (2 * x) - 1"
        using False "1.prems" by (simp add: binade.simps [of x])
      have "2 powi binade (2 * x) \<le> 2 * x \<and> 2 * x < 2 powi (binade (2 * x) + 1)"
        using "1.IH"(2) [OF False] True "1.prems" by simp
      then show ?thesis
        by (simp add: b power_int_add power_int_diff)
    next
      case False2: False
      then have "binade x = 0"
        using False by (simp add: binade.simps [of x])
      then show ?thesis
        using False False2 by simp
    qed
  qed
qed

lemma binade_eqI:
  assumes "2 powi e \<le> x" and "x < 2 powi (e + 1)"
  shows "binade x = e"
proof -
  have pos: "0 < x"
    using assms(1) zero_less_power_int [of "2 :: real" e] by linarith
  have b: "2 powi binade x \<le> x" "x < 2 powi (binade x + 1)"
    using binade_bounds [OF pos] by simp_all
  have "(2 :: real) powi e < 2 powi (binade x + 1)"
    using assms(1) b(2) by linarith
  then have 1: "e < binade x + 1"
    by (metis not_less power_int_increasing one_le_numeral linorder_not_less)
  have "(2 :: real) powi binade x < 2 powi (e + 1)"
    using assms(2) b(1) by linarith
  then have 2: "binade x < e + 1"
    by (metis not_less power_int_increasing one_le_numeral linorder_not_less)
  from 1 2 show ?thesis by simp
qed

lemma binade_half:
  assumes "0 < x"
  shows "binade (x / 2) = binade x - 1"
proof (rule binade_eqI)
  have b: "2 powi binade x \<le> x" "x < 2 powi (binade x + 1)"
    using binade_bounds [OF assms] by simp_all
  show "2 powi (binade x - 1) \<le> x / 2"
    using b(1) by (simp add: power_int_diff)
  show "x / 2 < 2 powi (binade x - 1 + 1)"
    using b(2) by (simp add: power_int_add)
qed

lemma roundToDouble_nonzero:
  "x \<noteq> 0 \<Longrightarrow>
     roundToDouble x =
       of_int (roundEven (x / 2 powi (binade \<bar>x\<bar> - 52))) * 2 powi (binade \<bar>x\<bar> - 52)"
  by (simp add: roundToDouble_def Let_def)

lemma roundToDouble_half: "roundToDouble (x / 2) = roundToDouble x / 2"
proof (cases "x = 0")
  case True
  then show ?thesis by (simp add: roundToDouble_def)
next
  case False
  define u where "u = (2 :: real) powi (binade \<bar>x\<bar> - 52)"
  define u' where "u' = (2 :: real) powi (binade \<bar>x / 2\<bar> - 52)"
  have "binade \<bar>x / 2\<bar> = binade \<bar>x\<bar> - 1"
    using False binade_half [of "\<bar>x\<bar>"] by simp
  then have "binade (abs (x / 2)) - 52 = binade (abs x) - 52 - 1"
    by linarith
  then have "u' = 2 powi (binade \<bar>x\<bar> - 52 - 1)"
    by (simp only: u'_def)
  then have u': "u' = u / 2"
    by (simp add: u_def power_int_diff)
  have "0 < u"
    by (simp add: u_def)
  then have quotient: "x / 2 / u' = x / u"
    by (simp add: u')
  have "roundToDouble (x / 2) = of_int (roundEven (x / 2 / u')) * u'"
    using False by (simp add: roundToDouble_nonzero u'_def)
  also have "\<dots> = of_int (roundEven (x / u)) * u / 2"
    by (simp add: quotient u')
  also have "\<dots> = roundToDouble x / 2"
    using False by (simp add: roundToDouble_nonzero u_def)
  finally show ?thesis .
qed

lemma floor_le_roundEven: "\<lfloor>y\<rfloor> \<le> roundEven y"
  by (simp add: roundEven_def Let_def)

lemma roundEven_of_int: "roundEven (of_int k) = k"
  by (simp add: roundEven_def)

lemma roundToDouble_positive:
  assumes "0 < x"
  shows "0 < roundToDouble x"
proof -
  define u where "u = (2 :: real) powi (binade \<bar>x\<bar> - 52)"
  have u: "0 < u"
    by (simp add: u_def)
  have "2 powi binade x \<le> x"
    using binade_bounds [OF assms] by simp
  then have "2 powi binade x / u \<le> x / u"
    using u by (simp add: divide_right_mono)
  moreover have "2 powi binade x / u = (2 :: real) powi 52"
    using assms by (simp add: u_def power_int_diff)
  moreover have "(1 :: real) \<le> 2 powi 52"
    by simp
  ultimately have "1 \<le> x / u"
    by linarith
  then have "1 \<le> \<lfloor>x / u\<rfloor>"
    by (simp only: le_floor_iff of_int_1)
  then have "0 < roundEven (x / u)"
    using floor_le_roundEven [of "x / u"] by linarith
  then have "0 < real_of_int (roundEven (x / u)) * u"
    using u by simp
  moreover have "roundToDouble x = real_of_int (roundEven (x / u)) * u"
    using assms by (simp add: roundToDouble_nonzero u_def)
  ultimately show ?thesis
    by simp
qed

lemma roundToDouble_binade:
  assumes "2 powi e \<le> \<bar>x\<bar>" and "\<bar>x\<bar> < 2 powi (e + 1)"
  shows "roundToDouble x = of_int (roundEven (x / 2 powi (e - 52))) * 2 powi (e - 52)"
proof -
  have "binade \<bar>x\<bar> = e"
    using assms by (rule binade_eqI)
  moreover have "0 < (2 :: real) powi e"
    by simp
  then have "0 < \<bar>x\<bar>"
    using assms(1) by linarith
  then have "x \<noteq> 0"
    by simp
  ultimately show ?thesis
    by (simp add: roundToDouble_nonzero)
qed

lemma roundToDouble_one_half: "roundToDouble (1 / 2) = 1 / 2"
  using roundToDouble_binade [of "- 1" "1 / 2"] roundEven_of_int [of "2 ^ 52"]
  by simp

lemma roundToDouble_one: "roundToDouble 1 = 1"
  using roundToDouble_binade [of 0 1] roundEven_of_int [of "2 ^ 52"]
  by simp

lemma faceBlendingFactorDouble_exact_midpoint:
  assumes "co1 < co2"
  shows "faceBlendingFactorDouble co1 co2 ((co1 + co2) / 2) = 1 / 2"
proof -
  have half: "(co1 + co2) / 2 - co1 = (co2 - co1) / 2"
    by (simp add: field_simps)
  have pos: "0 < roundToDouble (co2 - co1)"
    using assms by (simp add: roundToDouble_positive)
  have "roundToDouble ((co1 + co2) / 2 - co1) / roundToDouble (co2 - co1) = 1 / 2"
    using pos by (simp add: half roundToDouble_half)
  then show ?thesis
    by (simp add: faceBlendingFactorDouble_def roundToDouble_one_half)
qed

lemma roundEven_le_floor_plus_one: "roundEven y \<le> \<lfloor>y\<rfloor> + 1"
  by (simp add: roundEven_def Let_def)

lemma roundEven_mono:
  assumes "y \<le> z"
  shows "roundEven y \<le> roundEven z"
proof (cases "\<lfloor>y\<rfloor> = \<lfloor>z\<rfloor>")
  case True
  have "y - of_int \<lfloor>z\<rfloor> \<le> z - of_int \<lfloor>z\<rfloor>"
    using assms by simp
  then show ?thesis
    by (auto simp: roundEven_def Let_def True)
next
  case False
  then have "\<lfloor>y\<rfloor> < \<lfloor>z\<rfloor>"
    using floor_mono [OF assms] by linarith
  then show ?thesis
    using roundEven_le_floor_plus_one [of y] floor_le_roundEven [of z] by linarith
qed

lemma roundEven_minus: "roundEven (- y) = - roundEven y"
proof (cases "y = of_int \<lfloor>y\<rfloor>")
  case True
  then obtain k where "y = of_int k" ..
  then show ?thesis
    using roundEven_of_int [of k] roundEven_of_int [of "- k"] by simp
next
  case False
  then have lt: "of_int \<lfloor>y\<rfloor> < y"
    using of_int_floor_le [of y] by linarith
  have "y < of_int \<lfloor>y\<rfloor> + 1"
    by linarith
  with lt have fl: "\<lfloor>- y\<rfloor> = - \<lfloor>y\<rfloor> - 1"
    by (simp add: floor_eq_iff) linarith
  show ?thesis
    using lt by (auto simp: roundEven_def Let_def fl)
qed

lemma roundToDouble_zero: "roundToDouble 0 = 0"
  by (simp add: roundToDouble_def)

lemma roundToDouble_minus: "roundToDouble (- x) = - roundToDouble x"
  by (simp add: roundToDouble_def Let_def roundEven_minus)

lemma roundToDouble_in_binade:
  assumes "0 < x"
  shows "2 powi binade x \<le> roundToDouble x \<and> roundToDouble x \<le> 2 powi (binade x + 1)"
proof -
  define u where "u = (2 :: real) powi (binade x - 52)"
  have u: "0 < u"
    by (simp add: u_def)
  have b: "2 powi binade x \<le> x" "x < 2 powi (binade x + 1)"
    using binade_bounds [OF assms] by simp_all
  have lo: "(2 :: real) powi binade x = of_int (2 ^ 52) * u"
    by (simp add: u_def power_int_diff)
  have hi: "(2 :: real) powi (binade x + 1) = of_int (2 ^ 53) * u"
    by (simp add: u_def power_int_diff power_int_add)
  have "of_int (2 ^ 52) \<le> x / u"
    using b(1) u by (simp add: lo le_divide_eq)
  then have 1: "2 ^ 52 \<le> roundEven (x / u)"
    using roundEven_mono [of "of_int (2 ^ 52)" "x / u"] by (simp only: roundEven_of_int)
  have "x / u \<le> of_int (2 ^ 53)"
    using b(2) u by (simp add: hi divide_le_eq)
  then have 2: "roundEven (x / u) \<le> 2 ^ 53"
    using roundEven_mono [of "x / u" "of_int (2 ^ 53)"] by (simp only: roundEven_of_int)
  have r: "roundToDouble x = of_int (roundEven (x / u)) * u"
    using assms by (simp add: roundToDouble_nonzero u_def)
  have "of_int (2 ^ 52) * u \<le> of_int (roundEven (x / u)) * u"
    using 1 u by (intro mult_right_mono) (simp_all only: of_int_le_iff less_imp_le)
  moreover have "of_int (roundEven (x / u)) * u \<le> of_int (2 ^ 53) * u"
    using 2 u by (intro mult_right_mono) (simp_all only: of_int_le_iff less_imp_le)
  ultimately show ?thesis
    by (simp only: r lo hi)
qed

lemma roundToDouble_mono_positive:
  assumes "0 < x" and "x \<le> y"
  shows "roundToDouble x \<le> roundToDouble y"
proof -
  have y: "0 < y"
    using assms by linarith
  have bx: "2 powi binade x \<le> x" and "y < 2 powi (binade y + 1)"
    using binade_bounds [OF assms(1)] binade_bounds [OF y] by simp_all
  then have "(2 :: real) powi binade x < 2 powi (binade y + 1)"
    using assms(2) by linarith
  then have "binade x < binade y + 1"
    by (metis not_less power_int_increasing one_le_numeral linorder_not_less)
  then consider "binade x = binade y" | "binade x + 1 \<le> binade y"
    by linarith
  then show ?thesis
  proof cases
    case 1
    define u where "u = (2 :: real) powi (binade x - 52)"
    have u: "0 < u"
      by (simp add: u_def)
    have "x / u \<le> y / u"
      using assms(2) u by (simp add: divide_right_mono)
    then have "roundEven (x / u) \<le> roundEven (y / u)"
      by (rule roundEven_mono)
    then have "of_int (roundEven (x / u)) * u \<le> of_int (roundEven (y / u)) * u"
      using u by (intro mult_right_mono) (simp_all only: of_int_le_iff less_imp_le)
    then show ?thesis
      using assms(1) y by (simp add: roundToDouble_nonzero u_def 1)
  next
    case 2
    have "roundToDouble x \<le> 2 powi (binade x + 1)"
      using roundToDouble_in_binade [OF assms(1)] by simp
    also have "\<dots> \<le> 2 powi binade y"
      using 2 by (intro power_int_increasing) simp_all
    also have "\<dots> \<le> roundToDouble y"
      using roundToDouble_in_binade [OF y] by simp
    finally show ?thesis .
  qed
qed

lemma roundToDouble_mono:
  assumes "x \<le> y"
  shows "roundToDouble x \<le> roundToDouble y"
proof -
  consider "0 < x" | "y < 0" | "x \<le> 0" "0 \<le> y"
    using assms by linarith
  then show ?thesis
  proof cases
    case 1
    then show ?thesis
      using assms by (rule roundToDouble_mono_positive)
  next
    case 2
    then have "roundToDouble (- y) \<le> roundToDouble (- x)"
      using assms by (intro roundToDouble_mono_positive) simp_all
    then show ?thesis
      by (simp add: roundToDouble_minus)
  next
    case 3
    have "roundToDouble x \<le> 0"
    proof (cases "x = 0")
      case True
      then show ?thesis by (simp add: roundToDouble_zero)
    next
      case False
      then have "0 < roundToDouble (- x)"
        using 3(1) by (intro roundToDouble_positive) simp
      then show ?thesis
        by (simp add: roundToDouble_minus)
    qed
    moreover have "0 \<le> roundToDouble y"
    proof (cases "y = 0")
      case True
      then show ?thesis by (simp add: roundToDouble_zero)
    next
      case False
      then have "0 < roundToDouble y"
        using 3(2) by (intro roundToDouble_positive) simp
      then show ?thesis
        by simp
    qed
    ultimately show ?thesis
      by linarith
  qed
qed

lemma faceBlendingFactorDouble_low:
  assumes "co1 < co2" and "c \<le> co1"
  shows "faceBlendingFactorDouble co1 co2 c = 1"
proof -
  have n: "roundToDouble (c - co1) \<le> 0"
    using roundToDouble_mono [of "c - co1" 0] assms(2) by (simp add: roundToDouble_zero)
  have d: "0 < roundToDouble (co2 - co1)"
    using assms(1) by (simp add: roundToDouble_positive)
  have "roundToDouble (c - co1) / roundToDouble (co2 - co1) \<le> 0"
    using n d by (simp add: divide_nonpos_pos)
  then have "roundToDouble (roundToDouble (c - co1) / roundToDouble (co2 - co1)) \<le> 0"
    using roundToDouble_mono [of "roundToDouble (c - co1) / roundToDouble (co2 - co1)" 0]
    by (simp add: roundToDouble_zero)
  then show ?thesis
    by (simp add: faceBlendingFactorDouble_def roundToDouble_one)
qed

lemma faceBlendingFactorDouble_high:
  assumes "co1 < co2" and "co2 \<le> c"
  shows "faceBlendingFactorDouble co1 co2 c = 0"
proof -
  have d: "0 < roundToDouble (co2 - co1)"
    using assms(1) by (simp add: roundToDouble_positive)
  have "roundToDouble (co2 - co1) \<le> roundToDouble (c - co1)"
    using assms(2) by (intro roundToDouble_mono) simp
  then have "1 \<le> roundToDouble (c - co1) / roundToDouble (co2 - co1)"
    using d by (simp add: le_divide_eq)
  then have "1 \<le> roundToDouble (roundToDouble (c - co1) / roundToDouble (co2 - co1))"
    using roundToDouble_mono [of 1 "roundToDouble (c - co1) / roundToDouble (co2 - co1)"]
    by (simp add: roundToDouble_one)
  then show ?thesis
    by (simp add: faceBlendingFactorDouble_def roundToDouble_zero)
qed

lemma faceBlendingFactorDouble_range:
  "0 \<le> faceBlendingFactorDouble co1 co2 c \<and> faceBlendingFactorDouble co1 co2 c \<le> 1"
proof -
  define q where "q = roundToDouble (roundToDouble (c - co1) / roundToDouble (co2 - co1))"
  have "0 \<le> 1 - max (min q 1) 0" and "1 - max (min q 1) 0 \<le> 1"
    by simp_all
  then have "roundToDouble 0 \<le> roundToDouble (1 - max (min q 1) 0)"
    and "roundToDouble (1 - max (min q 1) 0) \<le> roundToDouble 1"
    by (simp_all only: roundToDouble_mono)
  then show ?thesis
    by (simp add: faceBlendingFactorDouble_def q_def roundToDouble_zero roundToDouble_one)
qed

text \<open>
  The doubles next to 0.1 and 0.55, and the expression of the blending factor
  evaluated on them, operation by operation.
\<close>

lemma double_one_tenth: "roundToDouble (1 / 10) = 3602879701896397 / 2 ^ 55"
  using roundToDouble_binade [of "- 4" "1 / 10"]
  by (simp add: roundEven_def)

lemma double_fifty_five_hundredths: "roundToDouble (55 / 100) = 2476979795053773 / 2 ^ 52"
  using roundToDouble_binade [of "- 1" "55 / 100"]
  by (simp add: roundEven_def)

lemma double_midpoint:
  "roundToDouble (roundToDouble (3602879701896397 / 2 ^ 55 + 1) / 2) = 2476979795053773 / 2 ^ 52"
proof -
  have sum: "roundToDouble (3602879701896397 / 2 ^ 55 + 1) = 2476979795053773 / 2 ^ 51"
    using roundToDouble_binade [of 0 "3602879701896397 / 2 ^ 55 + 1"]
    by (simp add: roundEven_def)
  have half: "roundToDouble (2476979795053773 / 2 ^ 51 / 2) = 2476979795053773 / 2 ^ 52"
    using roundToDouble_binade [of "- 1" "2476979795053773 / 2 ^ 51 / 2"]
    by (simp add: roundEven_def)
  show ?thesis
    unfolding sum by (rule half)
qed

lemma double_numerator:
  "roundToDouble (2476979795053773 / 2 ^ 52 - 3602879701896397 / 2 ^ 55) = 4053239664633447 / 2 ^ 53"
  using roundToDouble_binade [of "- 2" "2476979795053773 / 2 ^ 52 - 3602879701896397 / 2 ^ 55"]
  by (simp add: roundEven_def)

lemma double_denominator:
  "roundToDouble (1 - 3602879701896397 / 2 ^ 55) = 8106479329266893 / 2 ^ 53"
  using roundToDouble_binade [of "- 1" "1 - 3602879701896397 / 2 ^ 55"]
  by (simp add: roundEven_def)

lemma double_quotient:
  "roundToDouble (4053239664633447 / 2 ^ 53 / (8106479329266893 / 2 ^ 53)) = 1 / 2 + 1 / 2 ^ 53"
  using roundToDouble_binade [of "- 1" "4053239664633447 / 2 ^ 53 / (8106479329266893 / 2 ^ 53)"]
  by (simp add: roundEven_def)

lemma double_result:
  "roundToDouble (1 - (1 / 2 + 1 / 2 ^ 53)) = 1 / 2 - 1 / 2 ^ 53"
  using roundToDouble_binade [of "- 2" "1 - (1 / 2 + 1 / 2 ^ 53)"]
  by (simp add: roundEven_def)

lemma double_blendingFactor:
  "faceBlendingFactorDouble (3602879701896397 / 2 ^ 55) 1 (2476979795053773 / 2 ^ 52)
     = 1 / 2 - 1 / 2 ^ 53"
  unfolding faceBlendingFactorDouble_def double_numerator double_denominator double_quotient
  using double_result by simp

text \<open>
  For two neighbouring doubles the midpoint computed in doubles is one of the
  two, so the comparison with the midpoint can hold at an end of the ramp.
\<close>

lemma double_midpoint_of_neighbours:
  "roundToDouble (roundToDouble (1 + (1 + 1 / 2 ^ 52)) / 2) = 1"
proof -
  have sum: "roundToDouble (1 + (1 + 1 / 2 ^ 52)) = 2"
    using roundToDouble_binade [of 1 "1 + (1 + 1 / 2 ^ 52)"]
    by (simp add: roundEven_def)
  show ?thesis
    unfolding sum by (simp add: roundToDouble_one)
qed

subsection \<open>Evaluation on the mesh of two cells\<close>

lemma ex_scheme_sel:
  "Co1 (exampleScheme c1 s1 c2 s2) = c1" "Co2 (exampleScheme c1 s1 c2 s2) = c2"
  "tScheme1 (exampleScheme c1 s1 c2 s2) = s1" "tScheme2 (exampleScheme c1 s1 c2 s2) = s2"
  "faceFlux (exampleScheme c1 s1 c2 s2) = 0"
  by (simp_all add: exampleScheme_def)

lemma ex_initialiseFromStream:
  "initialiseFromStream exampleNew (exampleMesh dt phi)
     [scalarToken c1, wordToken ''central'', scalarToken c2, wordToken ''corrected'', wordToken ''phi'']
   = Inr (exampleScheme c1 exampleCentral c2 exampleCorrected, [])"
  by (simp add: initialiseFromStream_def readScalar_def readWord_def exampleNew_def
      lookupSurfaceScalarField_def exampleMesh_def exampleScheme_def)

lemma ex_initialiseFromFlux:
  "initialiseFromFlux exampleNewFlux mesh 0
     [scalarToken c1, wordToken ''central'', scalarToken c2, wordToken ''corrected'']
   = Inr (exampleScheme c1 exampleCentral c2 exampleCorrected, [])"
  by (simp add: initialiseFromFlux_def readScalar_def exampleNewFlux_def exampleNew_def exampleScheme_def)

lemma ex_constructFromStream:
  "0 \<le> c1 \<Longrightarrow> c1 < c2 \<Longrightarrow>
   constructFromStream exampleNew (exampleMesh dt phi)
     [scalarToken c1, wordToken ''central'', scalarToken c2, wordToken ''corrected'', wordToken ''phi'']
   = Inr (exampleScheme c1 exampleCentral c2 exampleCorrected, [])"
  by (simp add: constructFromStream_def ex_initialiseFromStream checkCoefficients_def)
     (simp add: exampleScheme_def)

lemma ex_tUflux:
  "tUflux (exampleMesh dt (exampleFlux dimFlux x)) (exampleScheme c1 s1 c2 s2) = Inr [x]"
  by (simp add: tUflux_def exampleMesh_def exampleFlux_def exampleScheme_def dimFlux_def
      dimMassFlux_def)

lemma ex_sumPhi: "sumPhi (exampleMesh dt phi) [x] = [\<bar>x\<bar>, \<bar>x\<bar>]"
  by (simp add: sumPhi_def surfaceSum_def mag_def facesOfCell_def nCells_def exampleMesh_def upt_rec)

lemma ex_Co:
  "Co (exampleMesh dt phi) [x] =
     \<lparr>name = ''Co'', dimensions = dimless,
      primitiveField = [\<bar>x\<bar> / 1 * (0.5 * dt), \<bar>x\<bar> / 1 * (0.5 * dt)],
      boundaryField = [], patchFieldType = extrapolatedCalculatedTypeName\<rparr>"
  by (simp add: Co_def correctBoundaryConditions_def CoAssigned_def CoConstructed_def ex_sumPhi
      times_scalar_def divide_fields_def boundaryFaceCells_def nInternalFaces_def nCells_def)
     (simp add: exampleMesh_def)

lemma ex_interpolate_Co:
  "interpolateScheme (exampleMesh dt phi) (Co (exampleMesh dt phi) [x]) = [\<bar>x\<bar> * (dt / 2)]"
  by (simp add: ex_Co) (simp add: exampleMesh_def exampleInterpolate_def mult.commute)

lemma ex_blendingFactor:
  "blendingFactor (exampleMesh dt (exampleFlux dimFlux x)) (exampleScheme c1 s1 c2 s2) vf =
     Inr \<lparr>name = name vf @ ''BlendingFactor'', dimensions = dimless,
          faceValues = [faceBlendingFactor c1 c2 (\<bar>x\<bar> * (dt / 2))]\<rparr>"
  by (simp add: blendingFactor_def ex_tUflux ex_Co)
     (simp add: exampleMesh_def exampleInterpolate_def exampleScheme_def mult.commute)

lemma ex_weights_central: "weightsOf exampleCentral (exampleMesh dt phi) vf = [1 / 2]"
  by (simp add: exampleCentral_def exampleMesh_def)

lemma ex_weights_corrected: "weightsOf exampleCorrected (exampleMesh dt phi) vf = [1]"
  by (simp add: exampleCorrected_def exampleMesh_def)

lemma ex_interpolate_central: "interpolateOf exampleCentral (exampleMesh dt phi) exampleField = [15]"
  by (simp add: exampleCentral_def exampleMesh_def exampleInterpolate_def exampleField_def)

lemma ex_interpolate_corrected: "interpolateOf exampleCorrected (exampleMesh dt phi) exampleField = [10]"
  by (simp add: exampleCorrected_def exampleMesh_def exampleField_def)

lemma ex_correction_corrected: "correctionOf exampleCorrected (exampleMesh dt phi) exampleField = [5]"
  by (simp add: exampleCorrected_def exampleMesh_def exampleField_def)

lemma ex_corrected: "\<not> correctedOf exampleCentral" "correctedOf exampleCorrected"
  by (simp_all add: exampleCentral_def exampleCorrected_def)

section \<open>The properties of the specification\<close>

text \<open>
  C1 (amended). For every constructed scheme and every input field, the
  blending factor at each face is one minus the clamp to the unit interval of
  \<open>(Co_face - Co1) / (Co2 - Co1)\<close>, where \<open>Co_face\<close> is the interpolated Courant
  number at the face: it is exactly 1 where \<open>Co_face \<le> Co1\<close>, exactly 0 where
  \<open>Co2 \<le> Co_face\<close>, the linear ramp in between, and exactly one half where
  \<open>Co_face\<close> is exactly the real number \<open>(Co1 + Co2) / 2\<close>. The three exact
  values are those of the real expression and of the expression rounded
  operation by operation to doubles alike.
\<close>

theorem blendingFactor_clamped_ramp_exact_midpoint:
  assumes constructed:
    "constructFromStream New mesh0 is0 = Inr (sch, is1) \<or>
     constructFromFlux NewFlux mesh0 flux is0 = Inr (sch, is1)"
    and returned: "blendingFactor mesh sch vf = Inr bf"
  shows "\<exists>Uflux. tUflux mesh sch = Inr Uflux \<and>
     (let CoFace = interpolateScheme mesh (Co mesh Uflux) in
        length (faceValues bf) = length CoFace \<and>
        (\<forall>facei < length CoFace.
           faceValues bf ! facei =
             1 - clamp ((CoFace ! facei - Co1 sch) / (Co2 sch - Co1 sch)) 0 1 \<and>
           (CoFace ! facei \<le> Co1 sch \<longrightarrow>
              faceValues bf ! facei = 1 \<and>
              faceBlendingFactorDouble (Co1 sch) (Co2 sch) (CoFace ! facei) = 1) \<and>
           (Co2 sch \<le> CoFace ! facei \<longrightarrow>
              faceValues bf ! facei = 0 \<and>
              faceBlendingFactorDouble (Co1 sch) (Co2 sch) (CoFace ! facei) = 0) \<and>
           (CoFace ! facei = (Co1 sch + Co2 sch) / 2 \<longrightarrow>
              faceValues bf ! facei = 1 / 2 \<and>
              faceBlendingFactorDouble (Co1 sch) (Co2 sch) (CoFace ! facei) = 1 / 2) \<and>
           (Co1 sch \<le> CoFace ! facei \<and> CoFace ! facei \<le> Co2 sch \<longrightarrow>
              faceValues bf ! facei = 1 - (CoFace ! facei - Co1 sch) / (Co2 sch - Co1 sch))))"
proof -
  have lt: "Co1 sch < Co2 sch"
    using constructed_coefficients [OF constructed] by simp
  obtain Uflux where U: "tUflux mesh sch = Inr Uflux"
    and bf: "faceValues bf =
      map (faceBlendingFactor (Co1 sch) (Co2 sch)) (interpolateScheme mesh (Co mesh Uflux))"
    using blendingFactor_Inr [OF returned] by blast
  let ?CoFace = "interpolateScheme mesh (Co mesh Uflux)"
  have len: "length (faceValues bf) = length ?CoFace"
    by (simp add: bf)
  have faces: "\<forall>facei < length ?CoFace.
           faceValues bf ! facei =
             1 - clamp ((?CoFace ! facei - Co1 sch) / (Co2 sch - Co1 sch)) 0 1 \<and>
           (?CoFace ! facei \<le> Co1 sch \<longrightarrow>
              faceValues bf ! facei = 1 \<and>
              faceBlendingFactorDouble (Co1 sch) (Co2 sch) (?CoFace ! facei) = 1) \<and>
           (Co2 sch \<le> ?CoFace ! facei \<longrightarrow>
              faceValues bf ! facei = 0 \<and>
              faceBlendingFactorDouble (Co1 sch) (Co2 sch) (?CoFace ! facei) = 0) \<and>
           (?CoFace ! facei = (Co1 sch + Co2 sch) / 2 \<longrightarrow>
              faceValues bf ! facei = 1 / 2 \<and>
              faceBlendingFactorDouble (Co1 sch) (Co2 sch) (?CoFace ! facei) = 1 / 2) \<and>
           (Co1 sch \<le> ?CoFace ! facei \<and> ?CoFace ! facei \<le> Co2 sch \<longrightarrow>
              faceValues bf ! facei = 1 - (?CoFace ! facei - Co1 sch) / (Co2 sch - Co1 sch))"
  proof (intro allI impI)
    fix facei
    assume "facei < length ?CoFace"
    then have v: "faceValues bf ! facei =
        faceBlendingFactor (Co1 sch) (Co2 sch) (?CoFace ! facei)"
      by (simp add: bf)
    define c where "c = ?CoFace ! facei"
    have formula: "faceBlendingFactor (Co1 sch) (Co2 sch) c =
        1 - clamp ((c - Co1 sch) / (Co2 sch - Co1 sch)) 0 1"
      by (rule faceBlendingFactor_clamp)
    have low: "c \<le> Co1 sch \<longrightarrow>
        faceBlendingFactor (Co1 sch) (Co2 sch) c = 1 \<and>
        faceBlendingFactorDouble (Co1 sch) (Co2 sch) c = 1"
      using faceBlendingFactor_low [OF lt] faceBlendingFactorDouble_low [OF lt] by blast
    have high: "Co2 sch \<le> c \<longrightarrow>
        faceBlendingFactor (Co1 sch) (Co2 sch) c = 0 \<and>
        faceBlendingFactorDouble (Co1 sch) (Co2 sch) c = 0"
      using faceBlendingFactor_high [OF lt] faceBlendingFactorDouble_high [OF lt] by blast
    have middle: "c = (Co1 sch + Co2 sch) / 2 \<longrightarrow>
        faceBlendingFactor (Co1 sch) (Co2 sch) c = 1 / 2 \<and>
        faceBlendingFactorDouble (Co1 sch) (Co2 sch) c = 1 / 2"
      using faceBlendingFactor_midpoint [OF lt] faceBlendingFactorDouble_exact_midpoint [OF lt]
      by blast
    have ramp: "Co1 sch \<le> c \<and> c \<le> Co2 sch \<longrightarrow>
        faceBlendingFactor (Co1 sch) (Co2 sch) c = 1 - (c - Co1 sch) / (Co2 sch - Co1 sch)"
      using faceBlendingFactor_ramp [OF lt] by blast
    from formula low high middle ramp
    show "faceValues bf ! facei =
             1 - clamp ((?CoFace ! facei - Co1 sch) / (Co2 sch - Co1 sch)) 0 1 \<and>
           (?CoFace ! facei \<le> Co1 sch \<longrightarrow>
              faceValues bf ! facei = 1 \<and>
              faceBlendingFactorDouble (Co1 sch) (Co2 sch) (?CoFace ! facei) = 1) \<and>
           (Co2 sch \<le> ?CoFace ! facei \<longrightarrow>
              faceValues bf ! facei = 0 \<and>
              faceBlendingFactorDouble (Co1 sch) (Co2 sch) (?CoFace ! facei) = 0) \<and>
           (?CoFace ! facei = (Co1 sch + Co2 sch) / 2 \<longrightarrow>
              faceValues bf ! facei = 1 / 2 \<and>
              faceBlendingFactorDouble (Co1 sch) (Co2 sch) (?CoFace ! facei) = 1 / 2) \<and>
           (Co1 sch \<le> ?CoFace ! facei \<and> ?CoFace ! facei \<le> Co2 sch \<longrightarrow>
              faceValues bf ! facei = 1 - (?CoFace ! facei - Co1 sch) / (Co2 sch - Co1 sch))"
      unfolding v c_def by blast
  qed
  show ?thesis
    unfolding Let_def using U len faces by blast
qed

text \<open>
  Two evaluations on the mesh of two cells. With \<open>Co1 = 0\<close>, \<open>Co2 = 1\<close>, a time
  step of 1/4 and a flux of 4 the face Courant number is the midpoint 1/2 and
  the blending factor is 1/2, in exact and in double arithmetic. With
  \<open>Co1 = 1/10\<close> and a time step of 1/10 the face Courant number is 2/10 and
  the blending factor is 8/9.
\<close>

theorem blendingFactor_clamped_ramp_exact_midpoint_witness:
  "constructFromStream exampleNew (exampleMesh (1 / 4) (exampleFlux dimFlux 4))
     [scalarToken 0, wordToken ''central'', scalarToken 1, wordToken ''corrected'',
      wordToken ''phi'']
     = Inr (exampleScheme 0 exampleCentral 1 exampleCorrected, []) \<and>
   blendingFactor (exampleMesh (1 / 4) (exampleFlux dimFlux 4))
     (exampleScheme 0 exampleCentral 1 exampleCorrected) exampleField
     = Inr \<lparr>name = ''TBlendingFactor'', dimensions = dimless, faceValues = [1 / 2]\<rparr> \<and>
   faceBlendingFactorDouble 0 1 (1 / 2) = 1 / 2 \<and>
   constructFromStream exampleNew (exampleMesh (1 / 10) (exampleFlux dimFlux 4))
     [scalarToken (1 / 10), wordToken ''central'', scalarToken 1, wordToken ''corrected'',
      wordToken ''phi'']
     = Inr (exampleScheme (1 / 10) exampleCentral 1 exampleCorrected, []) \<and>
   blendingFactor (exampleMesh (1 / 10) (exampleFlux dimFlux 4))
     (exampleScheme (1 / 10) exampleCentral 1 exampleCorrected) exampleField
     = Inr \<lparr>name = ''TBlendingFactor'', dimensions = dimless, faceValues = [8 / 9]\<rparr> \<and>
   (8 / 9 :: real) = 1 - clamp ((2 / 10 - 1 / 10) / (1 - 1 / 10)) 0 1"
proof -
  let ?meshA = "exampleMesh (1 / 4) (exampleFlux dimFlux 4)"
  let ?schA = "exampleScheme 0 exampleCentral 1 exampleCorrected"
  let ?bfA = "\<lparr>name = ''TBlendingFactor'', dimensions = dimless, faceValues = [1 / 2 :: real]\<rparr>"
  have cA: "constructFromStream exampleNew ?meshA
     [scalarToken 0, wordToken ''central'', scalarToken 1, wordToken ''corrected'',
      wordToken ''phi''] = Inr (?schA, [])"
    by (rule ex_constructFromStream) simp_all
  have rA: "blendingFactor ?meshA ?schA exampleField = Inr ?bfA"
    by (simp add: ex_blendingFactor exampleField_def faceBlendingFactor_def)
  have UA: "tUflux ?meshA ?schA = Inr [4]"
    by (rule ex_tUflux)
  have iA: "interpolateScheme ?meshA (Co ?meshA [4]) = [1 / 2]"
    by (simp add: ex_interpolate_Co)
  from blendingFactor_clamped_ramp_exact_midpoint
    [where NewFlux = exampleNewFlux and flux = 0, OF disjI1 [OF cA] rA]
  have dA: "faceBlendingFactorDouble 0 1 (1 / 2) = 1 / 2"
    by (simp add: UA iA ex_scheme_sel)
  let ?mesh = "exampleMesh (1 / 10) (exampleFlux dimFlux 4)"
  let ?sch = "exampleScheme (1 / 10) exampleCentral 1 exampleCorrected"
  let ?bf = "\<lparr>name = ''TBlendingFactor'', dimensions = dimless, faceValues = [8 / 9 :: real]\<rparr>"
  have c: "constructFromStream exampleNew ?mesh
     [scalarToken (1 / 10), wordToken ''central'', scalarToken 1, wordToken ''corrected'',
      wordToken ''phi''] = Inr (?sch, [])"
    by (rule ex_constructFromStream) simp_all
  have r: "blendingFactor ?mesh ?sch exampleField = Inr ?bf"
    by (simp add: ex_blendingFactor exampleField_def faceBlendingFactor_def)
  have U: "tUflux ?mesh ?sch = Inr [4]"
    by (rule ex_tUflux)
  have i: "interpolateScheme ?mesh (Co ?mesh [4]) = [2 / 10]"
    by (simp add: ex_interpolate_Co)
  from blendingFactor_clamped_ramp_exact_midpoint
    [where NewFlux = exampleNewFlux and flux = 0, OF disjI1 [OF c] r]
  have f: "(8 / 9 :: real) = 1 - clamp ((2 / 10 - 1 / 10) / (1 - 1 / 10)) 0 1"
    by (simp add: U i ex_scheme_sel)
  from cA rA dA c r f show ?thesis
    by blast
qed

text \<open>
  The specification takes the blending factor to be exactly one half
  whenever \<open>Co_face == (Co1 + Co2) / 2\<close>. Where this comparison is the one of
  the program, evaluated in doubles, it is not. Take for \<open>Co1\<close> the double next to
  0.1, \<open>Co2 = 1\<close>, and for \<open>Co_face\<close> the double next to 0.55, which is the
  midpoint \<open>(Co1 + Co2) / 2\<close> computed in doubles. The scheme is constructed
  from these coefficients, and the expression of the blending factor evaluates
  to \<open>1/2 - 2^-53\<close>.
\<close>

theorem blendingFactor_double_midpoint_counterexample:
  "constructFromStream exampleNew (exampleMesh 1 (exampleFlux dimFlux 4))
     [scalarToken (3602879701896397 / 2 ^ 55), wordToken ''central'', scalarToken 1,
      wordToken ''corrected'', wordToken ''phi'']
     = Inr (exampleScheme (3602879701896397 / 2 ^ 55) exampleCentral 1 exampleCorrected, []) \<and>
   roundToDouble (1 / 10) = 3602879701896397 / 2 ^ 55 \<and>
   roundToDouble (55 / 100) = 2476979795053773 / 2 ^ 52 \<and>
   roundToDouble (roundToDouble (3602879701896397 / 2 ^ 55 + 1) / 2)
     = 2476979795053773 / 2 ^ 52 \<and>
   faceBlendingFactorDouble (3602879701896397 / 2 ^ 55) 1 (2476979795053773 / 2 ^ 52)
     = 1 / 2 - 1 / 2 ^ 53 \<and>
   faceBlendingFactorDouble (3602879701896397 / 2 ^ 55) 1 (2476979795053773 / 2 ^ 52)
     \<noteq> 1 / 2"
proof -
  have constructed:
    "constructFromStream exampleNew (exampleMesh 1 (exampleFlux dimFlux 4))
       [scalarToken (3602879701896397 / 2 ^ 55), wordToken ''central'', scalarToken 1,
        wordToken ''corrected'', wordToken ''phi'']
     = Inr (exampleScheme (3602879701896397 / 2 ^ 55) exampleCentral 1 exampleCorrected, [])"
    by (rule ex_constructFromStream) simp_all
  have "faceBlendingFactorDouble (3602879701896397 / 2 ^ 55) 1 (2476979795053773 / 2 ^ 52)
          \<noteq> 1 / 2"
    unfolding double_blendingFactor by simp
  with constructed double_one_tenth double_fifty_five_hundredths double_midpoint
    double_blendingFactor
  show ?thesis
    by blast
qed

text \<open>
  C2. For every pair of scalars \<open>Co1\<close>, \<open>Co2\<close> that the member initialisers
  have read from the parameter stream, each of the two constructors succeeds
  if and only if \<open>0 \<le> Co1\<close>, \<open>0 \<le> Co2\<close> and \<open>Co1 < Co2\<close>; otherwise it fails
  with a fatal IO error whose message holds both values.
\<close>

theorem construction_checks_coefficients:
  "(initialiseFromStream New mesh is0 = Inr (sch, is1) \<longrightarrow>
      ((\<exists>result. constructFromStream New mesh is0 = Inr result) \<longleftrightarrow>
         0 \<le> Co1 sch \<and> 0 \<le> Co2 sch \<and> Co1 sch < Co2 sch) \<and>
      (if 0 \<le> Co1 sch \<and> 0 \<le> Co2 sch \<and> Co1 sch < Co2 sch
       then constructFromStream New mesh is0 = Inr (sch, is1)
       else \<exists>message. constructFromStream New mesh is0 = Inl (FatalIOError message) \<and>
              Num (Co1 sch) \<in> set message \<and> Num (Co2 sch) \<in> set message)) \<and>
   (initialiseFromFlux NewFlux mesh flux is2 = Inr (sch2, is3) \<longrightarrow>
      ((\<exists>result. constructFromFlux NewFlux mesh flux is2 = Inr result) \<longleftrightarrow>
         0 \<le> Co1 sch2 \<and> 0 \<le> Co2 sch2 \<and> Co1 sch2 < Co2 sch2) \<and>
      (if 0 \<le> Co1 sch2 \<and> 0 \<le> Co2 sch2 \<and> Co1 sch2 < Co2 sch2
       then constructFromFlux NewFlux mesh flux is2 = Inr (sch2, is3)
       else \<exists>message. constructFromFlux NewFlux mesh flux is2 = Inl (FatalIOError message) \<and>
              Num (Co1 sch2) \<in> set message \<and> Num (Co2 sch2) \<in> set message))"
  by (auto simp: constructFromStream_def constructFromFlux_def checkCoefficients_def)

theorem construction_checks_coefficients_witness:
  "initialiseFromStream exampleNew (exampleMesh 1 (exampleFlux dimFlux 4))
     [scalarToken 2, wordToken ''central'', scalarToken 1, wordToken ''corrected'', wordToken ''phi'']
     = Inr (exampleScheme 2 exampleCentral 1 exampleCorrected, []) \<and>
   initialiseFromFlux exampleNewFlux (exampleMesh 1 (exampleFlux dimFlux 4)) 0
     [scalarToken 0, wordToken ''central'', scalarToken 1, wordToken ''corrected'']
     = Inr (exampleScheme 0 exampleCentral 1 exampleCorrected, []) \<and>
   (\<exists>message. constructFromStream exampleNew (exampleMesh 1 (exampleFlux dimFlux 4))
       [scalarToken 2, wordToken ''central'', scalarToken 1, wordToken ''corrected'', wordToken ''phi'']
       = Inl (FatalIOError message) \<and> Num 2 \<in> set message \<and> Num 1 \<in> set message) \<and>
   constructFromFlux exampleNewFlux (exampleMesh 1 (exampleFlux dimFlux 4)) 0
     [scalarToken 0, wordToken ''central'', scalarToken 1, wordToken ''corrected'']
     = Inr (exampleScheme 0 exampleCentral 1 exampleCorrected, [])"
proof -
  let ?mesh = "exampleMesh 1 (exampleFlux dimFlux 4)"
  have a: "initialiseFromStream exampleNew ?mesh
     [scalarToken 2, wordToken ''central'', scalarToken 1, wordToken ''corrected'', wordToken ''phi'']
     = Inr (exampleScheme 2 exampleCentral 1 exampleCorrected, [])"
    by (rule ex_initialiseFromStream)
  have b: "initialiseFromFlux exampleNewFlux ?mesh 0
     [scalarToken 0, wordToken ''central'', scalarToken 1, wordToken ''corrected'']
     = Inr (exampleScheme 0 exampleCentral 1 exampleCorrected, [])"
    by (rule ex_initialiseFromFlux)
  show ?thesis
    using a b
      construction_checks_coefficients [of exampleNew ?mesh
        "[scalarToken 2, wordToken ''central'', scalarToken 1, wordToken ''corrected'', wordToken ''phi'']"
        "exampleScheme 2 exampleCentral 1 exampleCorrected" "[]"
        exampleNewFlux 0
        "[scalarToken 0, wordToken ''central'', scalarToken 1, wordToken ''corrected'']"
        "exampleScheme 0 exampleCentral 1 exampleCorrected" "[]"]
    by (simp add: ex_scheme_sel)
qed

text \<open>
  C3. Whatever the flux field, the cell volumes and the time step are, every
  face value of a blending factor that \<open>blendingFactor\<close> returns lies in the
  closed interval from 0 to 1.
\<close>

theorem blendingFactor_in_unit_interval:
  assumes "blendingFactor mesh sch vf = Inr bf"
  shows "\<forall>facei < length (faceValues bf). 0 \<le> faceValues bf ! facei \<and> faceValues bf ! facei \<le> 1"
proof -
  obtain Uflux where
    "faceValues bf =
       map (faceBlendingFactor (Co1 sch) (Co2 sch)) (interpolateScheme mesh (Co mesh Uflux))"
    using blendingFactor_Inr [OF assms] by blast
  then show ?thesis
    by (simp add: faceBlendingFactor_range)
qed

theorem blendingFactor_in_unit_interval_witness:
  "blendingFactor (exampleMesh 3 (exampleFlux dimFlux (- 7)))
     (exampleScheme (1 / 10) exampleCentral 1 exampleCorrected) exampleField
     = Inr \<lparr>name = ''TBlendingFactor'', dimensions = dimless, faceValues = [0]\<rparr> \<and>
   0 \<le> faceValues \<lparr>name = ''TBlendingFactor'', dimensions = dimless, faceValues = [0 :: real]\<rparr> ! 0 \<and>
   faceValues \<lparr>name = ''TBlendingFactor'', dimensions = dimless, faceValues = [0 :: real]\<rparr> ! 0 \<le> 1"
proof -
  let ?bf = "\<lparr>name = ''TBlendingFactor'', dimensions = dimless, faceValues = [0 :: real]\<rparr>"
  have returned: "blendingFactor (exampleMesh 3 (exampleFlux dimFlux (- 7)))
     (exampleScheme (1 / 10) exampleCentral 1 exampleCorrected) exampleField = Inr ?bf"
    by (simp add: ex_blendingFactor exampleField_def faceBlendingFactor_def)
  have face: "0 < length (faceValues ?bf)"
    by simp
  from blendingFactor_in_unit_interval [OF returned, rule_format, OF face] returned
  show ?thesis
    by blast
qed

text \<open>
  C9. With \<open>Co1\<close> and \<open>Co2\<close> of a constructed scheme held fixed, the blending
  factor at a face does not increase with the interpolated Courant number at
  the face: from \<open>Co_a \<le> Co_b\<close> it follows that the factor at \<open>Co_b\<close> is at
  most the factor at \<open>Co_a\<close>.
\<close>

theorem blendingFactor_nonincreasing_in_Co:
  assumes "constructFromStream New mesh is0 = Inr (sch, is1) \<or>
           constructFromFlux NewFlux mesh flux is0 = Inr (sch, is1)"
    and "Co_a \<le> Co_b"
  shows "faceBlendingFactor (Co1 sch) (Co2 sch) Co_b \<le> faceBlendingFactor (Co1 sch) (Co2 sch) Co_a"
proof -
  have "Co1 sch < Co2 sch"
    using constructed_coefficients [OF assms(1)] by simp
  then show ?thesis
    using assms(2) by (rule faceBlendingFactor_antimono)
qed

theorem blendingFactor_nonincreasing_in_Co_witness:
  "constructFromFlux exampleNewFlux (exampleMesh 1 (exampleFlux dimFlux 4)) 0
     [scalarToken 0, wordToken ''central'', scalarToken 1, wordToken ''corrected'']
     = Inr (exampleScheme 0 exampleCentral 1 exampleCorrected, []) \<and>
   (1 / 4 :: real) \<le> 1 / 2 \<and>
   faceBlendingFactor 0 1 (1 / 2) \<le> faceBlendingFactor 0 1 (1 / 4)"
proof -
  have c: "constructFromFlux exampleNewFlux (exampleMesh 1 (exampleFlux dimFlux 4)) 0
     [scalarToken 0, wordToken ''central'', scalarToken 1, wordToken ''corrected'']
     = Inr (exampleScheme 0 exampleCentral 1 exampleCorrected, [])"
    by (simp add: constructFromFlux_def ex_initialiseFromFlux checkCoefficients_def ex_scheme_sel)
  have le: "(1 / 4 :: real) \<le> 1 / 2"
    by simp
  from blendingFactor_nonincreasing_in_Co [where New = exampleNew and mesh = "exampleMesh 1 (exampleFlux dimFlux 4)", OF disjI2 [OF c] le] c
  show ?thesis
    by (simp add: ex_scheme_sel)
qed

text \<open>
  C10. For every scheme that passed construction the denominator
  \<open>Co2 - Co1\<close> of the ramp is strictly positive, so the division of the ramp
  is never a division by zero.
\<close>

theorem ramp_denominator_positive:
  assumes "constructFromStream New mesh is0 = Inr (sch, is1) \<or>
           constructFromFlux NewFlux mesh flux is0 = Inr (sch, is1)"
  shows "0 < Co2 sch - Co1 sch \<and> Co2 sch - Co1 sch \<noteq> 0 \<and>
         (CoFace - Co1 sch) / (Co2 sch - Co1 sch) * (Co2 sch - Co1 sch) = CoFace - Co1 sch"
  using constructed_coefficients [OF assms] by simp

theorem ramp_denominator_positive_witness:
  "constructFromStream exampleNew (exampleMesh 1 (exampleFlux dimFlux 4))
     [scalarToken 0, wordToken ''central'', scalarToken (1 / 1000), wordToken ''corrected'',
      wordToken ''phi'']
     = Inr (exampleScheme 0 exampleCentral (1 / 1000) exampleCorrected, []) \<and>
   0 < Co2 (exampleScheme 0 exampleCentral (1 / 1000) exampleCorrected)
         - Co1 (exampleScheme 0 exampleCentral (1 / 1000) exampleCorrected)"
proof -
  have c: "constructFromStream exampleNew (exampleMesh 1 (exampleFlux dimFlux 4))
     [scalarToken 0, wordToken ''central'', scalarToken (1 / 1000), wordToken ''corrected'',
      wordToken ''phi'']
     = Inr (exampleScheme 0 exampleCentral (1 / 1000) exampleCorrected, [])"
    by (rule ex_constructFromStream) simp_all
  from ramp_denominator_positive [where NewFlux = exampleNewFlux and flux = 0, OF disjI1 [OF c]] c
  show ?thesis
    by blast
qed

text \<open>
  C4. The scratch field \<open>Co\<close> of \<open>blendingFactor\<close> is constructed dimensionless,
  with all values zero and patch fields of type \<open>extrapolatedCalculated\<close>; the
  value of each cell is then set to the sum of the flux magnitudes over the
  faces that bound the cell, divided by the cell volume, times 0.5, times the
  time step. On the two-cell mesh with volumes 1, time step 0.1 and a face
  flux of 4 this gives \<open>Co = 0.2\<close> in both cells and, with \<open>Co1 = 0.1\<close> and
  \<open>Co2 = 1.0\<close>, the blending factor \<open>1 - (0.2 - 0.1) / (1.0 - 0.1)\<close>, which is
  0.889 to three decimals.
\<close>

theorem Co_field_construction:
  "dimensions (CoConstructed mesh) = dimless \<and>
   primitiveField (CoConstructed mesh) = replicate (nCells mesh) 0 \<and>
   boundaryField (CoConstructed mesh) = replicate (length (boundaryFaceCells mesh)) 0 \<and>
   patchFieldType (CoConstructed mesh) = ''extrapolatedCalculated'' \<and>
   dimensions (Co mesh Uflux) = dimless \<and>
   patchFieldType (Co mesh Uflux) = ''extrapolatedCalculated'' \<and>
   length (primitiveField (Co mesh Uflux)) = nCells mesh \<and>
   (\<forall>celli < nCells mesh.
      primitiveField (Co mesh Uflux) ! celli =
        sum_list (map abs (facesOfCell mesh Uflux celli)) / V mesh ! celli * 0.5 * deltaTValue mesh) \<and>
   primitiveField (Co (exampleMesh 0.1 (exampleFlux dimFlux 4)) [4]) = [0.2, 0.2] \<and>
   interpolateScheme (exampleMesh 0.1 (exampleFlux dimFlux 4))
     (Co (exampleMesh 0.1 (exampleFlux dimFlux 4)) [4]) = [0.2] \<and>
   blendingFactor (exampleMesh 0.1 (exampleFlux dimFlux 4))
     (exampleScheme 0.1 exampleCentral 1.0 exampleCorrected) exampleField =
       Inr \<lparr>name = ''TBlendingFactor'', dimensions = dimless,
            faceValues = [1 - (0.2 - 0.1) / (1.0 - 0.1)]\<rparr> \<and>
   \<bar>1 - (0.2 - 0.1) / (1.0 - 0.1) - (0.889 :: real)\<bar> < 0.001"
proof -
  have constructed:
    "dimensions (CoConstructed mesh) = dimless"
    "primitiveField (CoConstructed mesh) = replicate (nCells mesh) 0"
    "boundaryField (CoConstructed mesh) = replicate (length (boundaryFaceCells mesh)) 0"
    "patchFieldType (CoConstructed mesh) = ''extrapolatedCalculated''"
    by (simp_all add: CoConstructed_def extrapolatedCalculatedTypeName_def)
  have attributes:
    "dimensions (Co mesh Uflux) = dimless"
    "patchFieldType (Co mesh Uflux) = ''extrapolatedCalculated''"
    using Co_attributes [of mesh Uflux] by (simp_all add: extrapolatedCalculatedTypeName_def)
  have len: "length (primitiveField (Co mesh Uflux)) = nCells mesh"
    by (simp add: primitiveField_Co times_scalar_def divide_fields_def length_sumPhi nCells_def)
  have cells: "\<forall>celli < nCells mesh.
      primitiveField (Co mesh Uflux) ! celli =
        sum_list (map abs (facesOfCell mesh Uflux celli)) / V mesh ! celli * 0.5 * deltaTValue mesh"
    using Co_cell by blast
  have ex1: "primitiveField (Co (exampleMesh 0.1 (exampleFlux dimFlux 4)) [4]) = [0.2, 0.2]"
    by (simp add: ex_Co)
  have ex2: "interpolateScheme (exampleMesh 0.1 (exampleFlux dimFlux 4))
     (Co (exampleMesh 0.1 (exampleFlux dimFlux 4)) [4]) = [0.2]"
    by (simp add: ex_interpolate_Co)
  have ex3: "blendingFactor (exampleMesh 0.1 (exampleFlux dimFlux 4))
     (exampleScheme 0.1 exampleCentral 1.0 exampleCorrected) exampleField =
       Inr \<lparr>name = ''TBlendingFactor'', dimensions = dimless,
            faceValues = [1 - (0.2 - 0.1) / (1.0 - 0.1)]\<rparr>"
    by (simp add: ex_blendingFactor exampleField_def faceBlendingFactor_def)
  have ex4: "\<bar>1 - (0.2 - 0.1) / (1.0 - 0.1) - (0.889 :: real)\<bar> < 0.001"
    by simp
  show ?thesis
    using constructed attributes len cells ex1 ex2 ex3 ex4 by blast
qed

theorem Co_field_construction_witness:
  "(1 :: nat) < nCells (exampleMesh 2 (exampleFlux dimFlux 4)) \<and>
   primitiveField (Co (exampleMesh 2 (exampleFlux dimFlux 4)) [- 3]) ! 1 =
     sum_list (map abs (facesOfCell (exampleMesh 2 (exampleFlux dimFlux 4)) [- 3] 1))
       / V (exampleMesh 2 (exampleFlux dimFlux 4)) ! 1 * 0.5 * 2 \<and>
   sum_list (map abs (facesOfCell (exampleMesh 2 (exampleFlux dimFlux 4)) [- 3 :: real] 1)) = 3"
proof -
  have n: "(1 :: nat) < nCells (exampleMesh 2 (exampleFlux dimFlux 4))"
    by (simp add: nCells_def exampleMesh_def)
  have d: "deltaTValue (exampleMesh 2 (exampleFlux dimFlux 4)) = 2"
    by (simp add: exampleMesh_def)
  have s: "sum_list (map abs (facesOfCell (exampleMesh 2 (exampleFlux dimFlux 4)) [- 3 :: real] 1)) = 3"
    by (simp add: facesOfCell_def exampleMesh_def)
  from Co_field_construction [of "exampleMesh 2 (exampleFlux dimFlux 4)" "[- 3]"] n d s
  show ?thesis
    by (simp del: One_nat_def)
qed

text \<open>
  C5. In \<open>blendingFactor\<close>, a face flux whose dimensions are \<open>dimMassFlux\<close> is
  divided face by face by the interpolate of the density field registered
  under the name \<open>rho\<close>; a face flux whose dimensions are neither \<open>dimMassFlux\<close>
  nor \<open>dimFlux\<close> makes the call fail with a fatal error; a face flux whose
  dimensions are \<open>dimFlux\<close> is used as it is.
\<close>

theorem working_flux_by_dimensions:
  "(dimensions (surfaceFieldAt mesh (faceFlux sch)) = dimMassFlux \<and>
      volScalarFields mesh ''rho'' = Some rho \<longrightarrow>
        tUflux mesh sch =
          Inr (map2 (\<lambda>x y. x / y) (faceValues (surfaceFieldAt mesh (faceFlux sch)))
                 (interpolateScheme mesh rho))) \<and>
   (dimensions (surfaceFieldAt mesh (faceFlux sch)) \<noteq> dimMassFlux \<and>
    dimensions (surfaceFieldAt mesh (faceFlux sch)) \<noteq> dimFlux \<longrightarrow>
        (\<exists>message. tUflux mesh sch = Inl (FatalError message) \<and>
           blendingFactor mesh sch vf = Inl (FatalError message))) \<and>
   (dimensions (surfaceFieldAt mesh (faceFlux sch)) = dimFlux \<longrightarrow>
        tUflux mesh sch = Inr (faceValues (surfaceFieldAt mesh (faceFlux sch))))"
  by (simp add: tUflux_def blendingFactor_def lookupVolScalarField_def divide_fields_def Let_def
      dimFlux_neq_dimMassFlux)

theorem working_flux_by_dimensions_witness:
  "tUflux (exampleMesh 1 (exampleFlux dimMassFlux 6)) (exampleScheme 0 exampleCentral 1 exampleCorrected)
     = Inr [3] \<and>
   (\<exists>message. blendingFactor (exampleMesh 1 (exampleFlux dimless 6))
       (exampleScheme 0 exampleCentral 1 exampleCorrected) exampleField = Inl (FatalError message)) \<and>
   tUflux (exampleMesh 1 (exampleFlux dimFlux 6)) (exampleScheme 0 exampleCentral 1 exampleCorrected)
     = Inr [6]"
proof -
  let ?sch = "exampleScheme 0 exampleCentral 1 exampleCorrected"
  have a: "dimensions (surfaceFieldAt (exampleMesh 1 (exampleFlux dimMassFlux 6)) (faceFlux ?sch)) = dimMassFlux"
    "volScalarFields (exampleMesh 1 (exampleFlux dimMassFlux 6)) ''rho'' = Some exampleRho"
    "faceValues (surfaceFieldAt (exampleMesh 1 (exampleFlux dimMassFlux 6)) (faceFlux ?sch)) = [6]"
    "interpolateScheme (exampleMesh 1 (exampleFlux dimMassFlux 6)) exampleRho = [2]"
    by (simp_all add: exampleMesh_def exampleFlux_def exampleRho_def exampleInterpolate_def)
  have b: "dimensions (surfaceFieldAt (exampleMesh 1 (exampleFlux dimless 6)) (faceFlux ?sch)) \<noteq> dimMassFlux"
    "dimensions (surfaceFieldAt (exampleMesh 1 (exampleFlux dimless 6)) (faceFlux ?sch)) \<noteq> dimFlux"
    by (simp_all add: exampleMesh_def exampleFlux_def dimless_def dimMassFlux_def dimFlux_def)
  have c: "dimensions (surfaceFieldAt (exampleMesh 1 (exampleFlux dimFlux 6)) (faceFlux ?sch)) = dimFlux"
    "faceValues (surfaceFieldAt (exampleMesh 1 (exampleFlux dimFlux 6)) (faceFlux ?sch)) = [6]"
    by (simp_all add: exampleMesh_def exampleFlux_def)
  have 1: "tUflux (exampleMesh 1 (exampleFlux dimMassFlux 6)) ?sch = Inr [3]"
    using working_flux_by_dimensions [of "exampleMesh 1 (exampleFlux dimMassFlux 6)" ?sch exampleRho exampleField] a
    by simp
  have 2: "\<exists>message. blendingFactor (exampleMesh 1 (exampleFlux dimless 6)) ?sch exampleField
             = Inl (FatalError message)"
    using working_flux_by_dimensions [of "exampleMesh 1 (exampleFlux dimless 6)" ?sch exampleRho exampleField] b
    by blast
  have 3: "tUflux (exampleMesh 1 (exampleFlux dimFlux 6)) ?sch = Inr [6]"
    using working_flux_by_dimensions [of "exampleMesh 1 (exampleFlux dimFlux 6)" ?sch exampleRho exampleField] c
    by simp
  from 1 2 3 show ?thesis by blast
qed

text \<open>
  C6. For every field \<open>vf\<close> and every state of the mesh, the time and the flux
  at the call, \<open>weights\<close> returns \<open>bf * w1 + (1 - bf) * w2\<close> and \<open>interpolate\<close>
  returns \<open>bf * x1 + (1 - bf) * x2\<close>, face by face, where \<open>w1\<close>, \<open>w2\<close>, \<open>x1\<close>, \<open>x2\<close>
  are the weights and interpolates of the two sub-schemes and \<open>bf\<close> is the
  blending factor computed by \<open>blendingFactor\<close> from that state, within the
  call; a failure of \<open>blendingFactor\<close> is the failure of the call.
\<close>

theorem weights_and_interpolate_blend:
  fixes sch :: "'a::real_vector cellCoBlended"
  shows "case blendingFactor mesh sch vf of
       Inl e \<Rightarrow> weights mesh sch vf = Inl e \<and> interpolate mesh sch vf = Inl e
     | Inr bfField \<Rightarrow>
         (let bf = faceValues bfField;
              w1 = weightsOf (tScheme1 sch) mesh vf; w2 = weightsOf (tScheme2 sch) mesh vf;
              x1 = interpolateOf (tScheme1 sch) mesh vf; x2 = interpolateOf (tScheme2 sch) mesh vf
          in (\<exists>w. weights mesh sch vf = Inr w \<and>
                w = plus_fields (times_field bf w1) (times_field (one_minus bf) w2) \<and>
                (\<forall>facei. facei < length bf \<and> facei < length w1 \<and> facei < length w2 \<longrightarrow>
                   w ! facei = bf ! facei * w1 ! facei + (1 - bf ! facei) * w2 ! facei)) \<and>
             (\<exists>x. interpolate mesh sch vf = Inr x \<and>
                x = plus_fields (times_field bf x1) (times_field (one_minus bf) x2) \<and>
                (\<forall>facei. facei < length bf \<and> facei < length x1 \<and> facei < length x2 \<longrightarrow>
                   x ! facei = bf ! facei *\<^sub>R x1 ! facei + (1 - bf ! facei) *\<^sub>R x2 ! facei)))"
proof (cases "blendingFactor mesh sch vf")
  case (Inl e)
  then show ?thesis
    by (simp add: weights_def interpolate_def)
next
  case (Inr bfField)
  then show ?thesis
    using nth_blend [where 'a = real] nth_blend [where 'a = 'a]
    by (simp add: weights_def interpolate_def Let_def)
qed

theorem weights_and_interpolate_blend_witness:
  "blendingFactor (exampleMesh (1 / 10) (exampleFlux dimFlux 4))
     (exampleScheme (1 / 10) exampleCentral 1 exampleCorrected) exampleField
     = Inr \<lparr>name = ''TBlendingFactor'', dimensions = dimless, faceValues = [8 / 9]\<rparr> \<and>
   weights (exampleMesh (1 / 10) (exampleFlux dimFlux 4))
     (exampleScheme (1 / 10) exampleCentral 1 exampleCorrected) exampleField = Inr [5 / 9] \<and>
   interpolate (exampleMesh (1 / 10) (exampleFlux dimFlux 4))
     (exampleScheme (1 / 10) exampleCentral 1 exampleCorrected) exampleField = Inr [130 / 9] \<and>
   blendingFactor (exampleMesh 1 (exampleFlux dimFlux 4))
     (exampleScheme (1 / 10) exampleCentral 1 exampleCorrected) exampleField
     = Inr \<lparr>name = ''TBlendingFactor'', dimensions = dimless, faceValues = [0]\<rparr> \<and>
   weights (exampleMesh 1 (exampleFlux dimFlux 4))
     (exampleScheme (1 / 10) exampleCentral 1 exampleCorrected) exampleField = Inr [1] \<and>
   interpolate (exampleMesh 1 (exampleFlux dimFlux 4))
     (exampleScheme (1 / 10) exampleCentral 1 exampleCorrected) exampleField = Inr [10] \<and>
   blendingFactor (exampleMesh 1 (exampleFlux dimless 4))
     (exampleScheme (1 / 10) exampleCentral 1 exampleCorrected) exampleField
     = Inl (FatalError [Str ''dimensions of faceFlux are not correct'']) \<and>
   weights (exampleMesh 1 (exampleFlux dimless 4))
     (exampleScheme (1 / 10) exampleCentral 1 exampleCorrected) exampleField
     = Inl (FatalError [Str ''dimensions of faceFlux are not correct''])"
proof -
  let ?sch = "exampleScheme (1 / 10) exampleCentral 1 exampleCorrected"
  have a: "blendingFactor (exampleMesh (1 / 10) (exampleFlux dimFlux 4)) ?sch exampleField
     = Inr \<lparr>name = ''TBlendingFactor'', dimensions = dimless, faceValues = [8 / 9]\<rparr>"
    by (simp add: ex_blendingFactor exampleField_def faceBlendingFactor_def)
  have b: "blendingFactor (exampleMesh 1 (exampleFlux dimFlux 4)) ?sch exampleField
     = Inr \<lparr>name = ''TBlendingFactor'', dimensions = dimless, faceValues = [0]\<rparr>"
    by (simp add: ex_blendingFactor exampleField_def faceBlendingFactor_def)
  have c: "blendingFactor (exampleMesh 1 (exampleFlux dimless 4)) ?sch exampleField
     = Inl (FatalError [Str ''dimensions of faceFlux are not correct''])"
    by (simp add: blendingFactor_def tUflux_def exampleMesh_def exampleFlux_def
        dimless_def dimFlux_def dimMassFlux_def)
  have fields: "plus_fields (times_field [8 / 9] [1 / 2]) (times_field (one_minus [8 / 9]) [1]) = [5 / 9 :: real]"
    "plus_fields (times_field [8 / 9] [15]) (times_field (one_minus [8 / 9]) [10]) = [130 / 9 :: real]"
    "plus_fields (times_field [0] [1 / 2]) (times_field (one_minus [0]) [1]) = [1 :: real]"
    "plus_fields (times_field [0] [15]) (times_field (one_minus [0]) [10]) = [10 :: real]"
    by (simp_all add: plus_fields_def times_field_def one_minus_def)
  have 1: "weights (exampleMesh (1 / 10) (exampleFlux dimFlux 4)) ?sch exampleField = Inr [5 / 9] \<and>
           interpolate (exampleMesh (1 / 10) (exampleFlux dimFlux 4)) ?sch exampleField = Inr [130 / 9]"
    using weights_and_interpolate_blend [of "exampleMesh (1 / 10) (exampleFlux dimFlux 4)" ?sch exampleField]
    by (simp add: a ex_scheme_sel ex_weights_central ex_weights_corrected
        ex_interpolate_central ex_interpolate_corrected fields)
  have 2: "weights (exampleMesh 1 (exampleFlux dimFlux 4)) ?sch exampleField = Inr [1] \<and>
           interpolate (exampleMesh 1 (exampleFlux dimFlux 4)) ?sch exampleField = Inr [10]"
    using weights_and_interpolate_blend [of "exampleMesh 1 (exampleFlux dimFlux 4)" ?sch exampleField]
    by (simp add: b ex_scheme_sel ex_weights_central ex_weights_corrected
        ex_interpolate_central ex_interpolate_corrected fields)
  have 3: "weights (exampleMesh 1 (exampleFlux dimless 4)) ?sch exampleField
     = Inl (FatalError [Str ''dimensions of faceFlux are not correct''])"
    using weights_and_interpolate_blend [of "exampleMesh 1 (exampleFlux dimless 4)" ?sch exampleField]
    by (simp add: c)
  from a b c 1 2 3 show ?thesis by blast
qed

text \<open>
  C7. When the blending factor \<open>bf\<close> is returned, \<open>correction\<close> returns no field
  (and not a field of zeros) if and only if neither sub-scheme is corrected;
  it returns \<open>bf * correction1\<close> when only the first is corrected,
  \<open>(1 - bf) * correction2\<close> when only the second is, and the sum of the two
  when both are.
\<close>

theorem correction_cases:
  fixes sch :: "'a::real_vector cellCoBlended"
  assumes "blendingFactor mesh sch vf = Inr bfField"
  shows "(correction mesh sch vf = Inr None \<longleftrightarrow>
            \<not> correctedOf (tScheme1 sch) \<and> \<not> correctedOf (tScheme2 sch)) \<and>
         (correctedOf (tScheme1 sch) \<and> \<not> correctedOf (tScheme2 sch) \<longrightarrow>
            correction mesh sch vf =
              Inr (Some (times_field (faceValues bfField) (correctionOf (tScheme1 sch) mesh vf)))) \<and>
         (\<not> correctedOf (tScheme1 sch) \<and> correctedOf (tScheme2 sch) \<longrightarrow>
            correction mesh sch vf =
              Inr (Some (times_field (one_minus (faceValues bfField))
                           (correctionOf (tScheme2 sch) mesh vf)))) \<and>
         (correctedOf (tScheme1 sch) \<and> correctedOf (tScheme2 sch) \<longrightarrow>
            correction mesh sch vf =
              Inr (Some (plus_fields
                     (times_field (faceValues bfField) (correctionOf (tScheme1 sch) mesh vf))
                     (times_field (one_minus (faceValues bfField))
                        (correctionOf (tScheme2 sch) mesh vf)))))"
  using assms by (simp add: correction_def Let_def)

theorem correction_cases_witness:
  "blendingFactor (exampleMesh (1 / 10) (exampleFlux dimFlux 4))
     (exampleScheme (1 / 10) exampleCentral 1 exampleCentral) exampleField
     = Inr \<lparr>name = ''TBlendingFactor'', dimensions = dimless, faceValues = [8 / 9]\<rparr> \<and>
   correction (exampleMesh (1 / 10) (exampleFlux dimFlux 4))
     (exampleScheme (1 / 10) exampleCentral 1 exampleCentral) exampleField = Inr None \<and>
   correction (exampleMesh (1 / 10) (exampleFlux dimFlux 4))
     (exampleScheme (1 / 10) exampleCorrected 1 exampleCentral) exampleField = Inr (Some [40 / 9]) \<and>
   correction (exampleMesh (1 / 10) (exampleFlux dimFlux 4))
     (exampleScheme (1 / 10) exampleCentral 1 exampleCorrected) exampleField = Inr (Some [5 / 9]) \<and>
   correction (exampleMesh (1 / 10) (exampleFlux dimFlux 4))
     (exampleScheme (1 / 10) exampleCorrected 1 exampleCorrected) exampleField = Inr (Some [5])"
proof -
  let ?mesh = "exampleMesh (1 / 10) (exampleFlux dimFlux 4)"
  have bf: "blendingFactor ?mesh (exampleScheme (1 / 10) s1 1 s2) exampleField
     = Inr \<lparr>name = ''TBlendingFactor'', dimensions = dimless, faceValues = [8 / 9]\<rparr>" for s1 s2
    by (simp add: ex_blendingFactor exampleField_def faceBlendingFactor_def)
  have fields:
    "times_field [8 / 9] [5] = [40 / 9 :: real]"
    "times_field (one_minus [8 / 9]) [5] = [5 / 9 :: real]"
    "plus_fields [40 / 9] [5 / 9] = [5 :: real]"
    by (simp_all add: plus_fields_def times_field_def one_minus_def)
  have 1: "correction ?mesh (exampleScheme (1 / 10) exampleCentral 1 exampleCentral) exampleField = Inr None"
    using correction_cases [OF bf [of exampleCentral exampleCentral]]
    by (simp add: ex_scheme_sel ex_corrected)
  have 2: "correction ?mesh (exampleScheme (1 / 10) exampleCorrected 1 exampleCentral) exampleField
             = Inr (Some [40 / 9])"
    using correction_cases [OF bf [of exampleCorrected exampleCentral]]
    by (simp add: ex_scheme_sel ex_corrected ex_correction_corrected fields)
  have 3: "correction ?mesh (exampleScheme (1 / 10) exampleCentral 1 exampleCorrected) exampleField
             = Inr (Some [5 / 9])"
    using correction_cases [OF bf [of exampleCentral exampleCorrected]]
    by (simp add: ex_scheme_sel ex_corrected ex_correction_corrected fields)
  have 4: "correction ?mesh (exampleScheme (1 / 10) exampleCorrected 1 exampleCorrected) exampleField
             = Inr (Some [5])"
    using correction_cases [OF bf [of exampleCorrected exampleCorrected]]
    by (simp add: ex_scheme_sel ex_corrected ex_correction_corrected fields)
  from bf [of exampleCentral exampleCentral] 1 2 3 4 show ?thesis by blast
qed

text \<open>
  C8. \<open>corrected\<close> is the disjunction of the \<open>corrected\<close> of the two sub-schemes.
\<close>

theorem corrected_is_disjunction:
  "corrected sch = (correctedOf (tScheme1 sch) \<or> correctedOf (tScheme2 sch))"
  by (simp add: corrected_def)

theorem corrected_is_disjunction_witness:
  "corrected (exampleScheme 0 exampleCentral 1 exampleCorrected) \<and>
   corrected (exampleScheme 0 exampleCorrected 1 exampleCentral) \<and>
   corrected (exampleScheme 0 exampleCorrected 1 exampleCorrected) \<and>
   \<not> corrected (exampleScheme 0 exampleCentral 1 exampleCentral)"
  using corrected_is_disjunction [of "exampleScheme 0 exampleCentral 1 exampleCorrected"]
    corrected_is_disjunction [of "exampleScheme 0 exampleCorrected 1 exampleCentral"]
    corrected_is_disjunction [of "exampleScheme 0 exampleCorrected 1 exampleCorrected"]
    corrected_is_disjunction [of "exampleScheme 0 exampleCentral 1 exampleCentral"]
  by (simp add: ex_scheme_sel ex_corrected)

end
